theory Spec2Isabelle
  imports Main
begin

section \<open>Strings and character classes\<close>

text \<open>
  A JavaScript string is a sequence of UTF-16 code units; a code unit is modelled by its
  number, so that \<open>length\<close> counts what \<open>String.prototype.length\<close> counts and the
  character classes of the regular expressions can be written out in full.
  \<open>js\<close> turns a literal into such a string.
\<close>

type_synonym jsstring = "nat list"

definition js :: "string \<Rightarrow> jsstring" where
  "js s = map of_char s"

text \<open>The class \<open>\w\<close> of a regular expression without the \<open>u\<close> flag: \<open>[A-Za-z0-9_]\<close>.\<close>

definition isWordChar :: "nat \<Rightarrow> bool" where
  "isWordChar c =
     ((48 \<le> c \<and> c \<le> 57) \<or> (65 \<le> c \<and> c \<le> 90) \<or> c = 95 \<or> (97 \<le> c \<and> c \<le> 122))"

text \<open>
  The class \<open>\s\<close>: the white space and line terminator code units of ECMAScript, which
  are also the code units removed by \<open>trim\<close> and \<open>trimLeft\<close>.
\<close>

definition isSpace :: "nat \<Rightarrow> bool" where
  "isSpace c =
     (c = 9 \<or> c = 10 \<or> c = 11 \<or> c = 12 \<or> c = 13 \<or> c = 32 \<or> c = 160 \<or> c = 5760 \<or>
      (8192 \<le> c \<and> c \<le> 8202) \<or> c = 8232 \<or> c = 8233 \<or> c = 8239 \<or> c = 8287 \<or>
      c = 12288 \<or> c = 65279)"

text \<open>
  Case mapping, written out for the Basic Latin letters; the other code units are left as
  they are. \<open>slugifyTitle\<close> lowers a string that holds word characters and separator
  characters only, where this is what \<open>toLowerCase\<close> does.
\<close>

definition toLowerCaseUnit :: "nat \<Rightarrow> nat" where
  "toLowerCaseUnit c = (if 65 \<le> c \<and> c \<le> 90 then c + 32 else c)"

definition toUpperCaseUnit :: "nat \<Rightarrow> nat" where
  "toUpperCaseUnit c = (if 97 \<le> c \<and> c \<le> 122 then c - 32 else c)"

definition toLowerCase :: "jsstring \<Rightarrow> jsstring" where
  "toLowerCase s = map toLowerCaseUnit s"

definition toUpperCase :: "jsstring \<Rightarrow> jsstring" where
  "toUpperCase s = map toUpperCaseUnit s"

text \<open>
  \<open>toUpperCase\<close> and \<open>toLocaleLowerCase\<close> on arbitrary text follow the Unicode tables
  of the engine and the locale of the host: a letter outside ASCII has its own upper case,
  which may be longer than the letter, and the lower case of a letter depends on the
  locale. Title casing takes both functions from the host. \<open>basicLatinCase\<close> maps the
  Basic Latin letters and nothing else, as an engine does on ASCII text in a locale
  without special rules for these letters; \<open>agreesOnLowerLatin\<close> says what every engine
  and locale does on the small letters \<open>a\<close> to \<open>z\<close>.
\<close>

record caseMapping =
  toUpperCaseOf :: "jsstring \<Rightarrow> jsstring"
  toLocaleLowerCaseOf :: "jsstring \<Rightarrow> jsstring"

definition basicLatinCase :: caseMapping where
  "basicLatinCase = \<lparr>toUpperCaseOf = toUpperCase, toLocaleLowerCaseOf = toLowerCase\<rparr>"



text \<open>\<open>s.trimLeft()\<close> and \<open>s.trim()\<close>.\<close>

definition trimLeft :: "jsstring \<Rightarrow> jsstring" where
  "trimLeft s = dropWhile isSpace s"

definition trim :: "jsstring \<Rightarrow> jsstring" where
  "trim s = rev (dropWhile isSpace (rev (dropWhile isSpace s)))"

text \<open>
  \<open>s.split(/c/)\<close> for a regular expression that matches exactly one code unit of a
  class: the pieces between the matching code units, empty pieces included; the empty
  string gives one empty piece.
\<close>

fun splitOn :: "(nat \<Rightarrow> bool) \<Rightarrow> jsstring \<Rightarrow> jsstring list" where
  "splitOn p [] = [[]]"
| "splitOn p (c # cs) =
     (if p c then [] # splitOn p cs
      else (case splitOn p cs of
              [] \<Rightarrow> [[c]]
            | w # ws \<Rightarrow> (c # w) # ws))"

text \<open>\<open>xs.join(sep)\<close>.\<close>

fun join_with :: "jsstring \<Rightarrow> jsstring list \<Rightarrow> jsstring" where
  "join_with sep [] = []"
| "join_with sep [x] = x"
| "join_with sep (x # y # ys) = x @ sep @ join_with sep (y # ys)"

text \<open>
  \<open>s.replace(/\W+/gi, sep)\<close>: every maximal run of non-word code units is replaced
  by \<open>sep\<close>.
\<close>

function replaceNonWordRuns :: "jsstring \<Rightarrow> jsstring \<Rightarrow> jsstring" where
  "replaceNonWordRuns sep [] = []"
| "replaceNonWordRuns sep (c # cs) =
     (if isWordChar c then c # replaceNonWordRuns sep cs
      else sep @ replaceNonWordRuns sep (dropWhile (\<lambda>d. \<not> isWordChar d) cs))"
  by pat_completeness auto
termination
  by (relation "measure (\<lambda>(sep, s). length s)")
     (auto simp: le_imp_less_Suc length_dropWhile_le)

text \<open>
  A regular expression \<open>\.(e1|e2|...)$\<close> matches the suffix of \<open>s\<close> that is a dot
  followed by one of the extensions; the result is the extension matched. With the flag
  \<open>i\<close> (\<open>ignoreCase = True\<close>) the letters are compared without case: the extensions
  are written in lower case and no code unit outside ASCII is equal to an ASCII letter
  up to case.
\<close>

definition extensionAtEnd :: "bool \<Rightarrow> jsstring list \<Rightarrow> jsstring \<Rightarrow> jsstring option" where
  "extensionAtEnd ignoreCase exts s =
     find (\<lambda>e. Suc (length e) \<le> length s \<and>
                (if ignoreCase then toLowerCase (drop (length s - Suc (length e)) s)
                 else drop (length s - Suc (length e)) s) = 46 # e) exts"

text \<open>
  The same expression without the \<open>$\<close>, with the flag \<open>i\<close>: it matches when a dot
  followed by one of the extensions stands anywhere in \<open>s\<close>.
\<close>

fun extensionAnywhere :: "jsstring list \<Rightarrow> jsstring \<Rightarrow> bool" where
  "extensionAnywhere exts [] = False"
| "extensionAnywhere exts (c # cs) =
     ((\<exists>e \<in> set exts. toLowerCase (take (Suc (length e)) (c # cs)) = 46 # e)
      \<or> extensionAnywhere exts cs)"

section \<open>The path module\<close>

text \<open>
  \<open>basename\<close>, \<open>dirname\<close>, \<open>resolve\<close> and \<open>join\<close> of Node's \<open>path\<close> module, in
  its POSIX flavour: the separator is \<open>/\<close> (code unit 47).
\<close>

definition isSlash :: "nat \<Rightarrow> bool" where
  "isSlash c = (c = 47)"

text \<open>
  \<open>basename(p)\<close>: trailing separators are dropped, then the part after the last
  separator is kept.
\<close>

definition basename :: "jsstring \<Rightarrow> jsstring" where
  "basename p = rev (takeWhile (\<lambda>c. \<not> isSlash c) (dropWhile isSlash (rev p)))"

text \<open>
  \<open>dirname(p)\<close>: the scan runs from the end down to index 1; it skips trailing
  separators and the last segment, and cuts at the separator before that segment.
\<close>

definition dirname :: "jsstring \<Rightarrow> jsstring" where
  "dirname p =
     (case p of
        [] \<Rightarrow> [46]
      | c # q \<Rightarrow>
          (let hasRoot = isSlash c;
               r = dropWhile (\<lambda>d. \<not> isSlash d) (dropWhile isSlash (rev q))
           in if r = [] then (if hasRoot then [47] else [46])
              else if hasRoot \<and> length r = 1 then [47, 47]
              else c # rev (tl r)))"

text \<open>
  \<open>normalizeString\<close>: empty segments and \<open>.\<close> are dropped; \<open>..\<close> removes the
  segment before it, is kept when there is none to remove and the path may climb above
  its root, and is dropped otherwise.
\<close>

fun normalizeSegments :: "bool \<Rightarrow> jsstring list \<Rightarrow> jsstring list \<Rightarrow> jsstring list" where
  "normalizeSegments allowAboveRoot res [] = res"
| "normalizeSegments allowAboveRoot res (seg # segs) =
     (if seg = [] \<or> seg = [46] then normalizeSegments allowAboveRoot res segs
      else if seg = [46, 46] then
        (if res \<noteq> [] \<and> last res \<noteq> [46, 46]
         then normalizeSegments allowAboveRoot (butlast res) segs
         else if allowAboveRoot then normalizeSegments allowAboveRoot (res @ [[46, 46]]) segs
         else normalizeSegments allowAboveRoot res segs)
      else normalizeSegments allowAboveRoot (res @ [seg]) segs)"

definition normalizeString :: "jsstring \<Rightarrow> bool \<Rightarrow> jsstring" where
  "normalizeString p allowAboveRoot =
     join_with [47] (normalizeSegments allowAboveRoot [] (splitOn isSlash p))"

definition isAbsolute :: "jsstring \<Rightarrow> bool" where
  "isAbsolute p = (case p of [] \<Rightarrow> False | c # _ \<Rightarrow> isSlash c)"

text \<open>\<open>normalize(p)\<close>, named after the module since \<open>normalize\<close> is a word of the logic.\<close>

definition path_normalize :: "jsstring \<Rightarrow> jsstring" where
  "path_normalize p =
     (if p = [] then [46]
      else
        (let trailingSeparator = isSlash (last p);
             q = normalizeString p (\<not> isAbsolute p)
         in if q = [] then
              (if isAbsolute p then [47] else if trailingSeparator then [46, 47] else [46])
            else
              (let q = (if trailingSeparator then q @ [47] else q)
               in if isAbsolute p then 47 # q else q)))"

text \<open>\<open>join(...args)\<close>: the non-empty arguments, joined by the separator and normalized.\<close>

definition join :: "jsstring list \<Rightarrow> jsstring" where
  "join args =
     (case filter (\<lambda>a. a \<noteq> []) args of
        [] \<Rightarrow> [46]
      | parts \<Rightarrow> path_normalize (join_with [47] parts))"

text \<open>
  \<open>resolve(...args)\<close>: the arguments are taken from the right until an absolute one is
  met; the working directory of the process comes last. \<open>resolveLoop\<close> gets the
  arguments in reverse.
\<close>

fun resolveLoop :: "jsstring list \<Rightarrow> jsstring \<Rightarrow> jsstring \<Rightarrow> jsstring \<times> bool" where
  "resolveLoop [] cwd resolvedPath =
     (if cwd = [] then (resolvedPath, False)
      else (cwd @ 47 # resolvedPath, isAbsolute cwd))"
| "resolveLoop (p # ps) cwd resolvedPath =
     (if p = [] then resolveLoop ps cwd resolvedPath
      else if isAbsolute p then (p @ 47 # resolvedPath, True)
      else resolveLoop ps cwd (p @ 47 # resolvedPath))"

definition resolve :: "jsstring \<Rightarrow> jsstring list \<Rightarrow> jsstring" where
  "resolve cwd args =
     (case resolveLoop (rev args) cwd [] of
        (resolvedPath, resolvedAbsolute) \<Rightarrow>
          (let q = normalizeString resolvedPath (\<not> resolvedAbsolute)
           in if resolvedAbsolute then 47 # q
              else if q \<noteq> [] then q else [46]))"

section \<open>The host: editor, configuration and file system\<close>

text \<open>
  What the extension gets from the editor and from Node, reduced to what the code
  reads and writes. A \<open>Uri\<close> is built from a scheme, an authority and a path, or
  parsed from a text by \<open>Uri.parse\<close>; the parser of the editor is not modelled, a parsed
  \<open>Uri\<close> keeps the text it was parsed from.
\<close>

datatype Uri =
    Uri (scheme: jsstring) (authority: jsstring) (path: jsstring)
  | Uri_parse jsstring

text \<open>
  \<open>Uri.file(p)\<close>: a path that starts with two separators gives its next segment to the
  authority; the path of the \<open>Uri\<close> always starts with a separator, which is put before
  a relative path.
\<close>

definition Uri_file :: "jsstring \<Rightarrow> Uri" where
  "Uri_file p =
     (case p of
        [] \<Rightarrow> Uri [102, 105, 108, 101] [] [47]
      | [a] \<Rightarrow> Uri [102, 105, 108, 101] [] (if isSlash a then p else 47 # p)
      | a # b # rest \<Rightarrow>
          if isSlash a \<and> isSlash b
          then (let q = dropWhile (\<lambda>c. \<not> isSlash c) rest
                in Uri [102, 105, 108, 101] (takeWhile (\<lambda>c. \<not> isSlash c) rest)
                       (if q = [] then [47] else q))
          else Uri [102, 105, 108, 101] [] (if isSlash a then p else 47 # p))"

text \<open>
  \<open>uri.fsPath\<close> on a POSIX host: the authority of a \<open>file\<close> is put back before the
  path, and a path that starts with a drive letter loses its first separator and has the
  letter lowered.
\<close>

definition isLatinLetter :: "nat \<Rightarrow> bool" where
  "isLatinLetter c = ((65 \<le> c \<and> c \<le> 90) \<or> (97 \<le> c \<and> c \<le> 122))"

definition fsPath :: "Uri \<Rightarrow> jsstring" where
  "fsPath u =
     (if authority u \<noteq> [] \<and> 1 < length (path u) \<and> scheme u = [102, 105, 108, 101]
      then [47, 47] @ authority u @ path u
      else (case path u of
              a # b # c # rest \<Rightarrow>
                if isSlash a \<and> isLatinLetter b \<and> c = 58
                then toLowerCaseUnit b # c # rest
                else path u
            | _ \<Rightarrow> path u))"

datatype Position = Position (line: nat) (character: nat)

datatype Range = Range (range_start: Position) (range_end: Position)

text \<open>\<open>new vscode.Range(a, b)\<close> puts the earlier position first.\<close>

definition isAfter :: "Position \<Rightarrow> Position \<Rightarrow> bool" where
  "isAfter a b = (line b < line a \<or> (line a = line b \<and> character b < character a))"

definition new_Range :: "Position \<Rightarrow> Position \<Rightarrow> Range" where
  "new_Range a b = (if isAfter a b then Range b a else Range a b)"

text \<open>\<open>new vscode.Location(uri, rangeOrPosition)\<close>; a position stands for the empty range at it.\<close>

datatype Location = Location Uri Range

definition Location_at :: "Uri \<Rightarrow> Position \<Rightarrow> Location" where
  "Location_at u p = Location u (Range p p)"

record TextDocument =
  document_uri :: Uri
  document_lines :: "jsstring list"

text \<open>\<open>document.getText(range)\<close>; the lines of the document are joined by a line feed.\<close>

definition offsetAt :: "jsstring list \<Rightarrow> Position \<Rightarrow> nat" where
  "offsetAt ls p =
     (if line p < length ls
      then sum_list (map (\<lambda>l. Suc (length l)) (take (line p) ls))
           + min (character p) (length (ls ! line p))
      else length (join_with [10] ls))"

definition getText :: "TextDocument \<Rightarrow> Range \<Rightarrow> jsstring" where
  "getText document r =
     (let a = offsetAt (document_lines document) (range_start r);
          b = offsetAt (document_lines document) (range_end r)
      in take (b - a) (drop a (join_with [10] (document_lines document))))"

text \<open>
  Every call of the host that changes or reads the files or shows something to the user
  is written to a trace, in the order of the calls.
\<close>

datatype event =
    FindFiles
  | ExistsSync jsstring
  | ReadFile jsstring
  | WriteFileSync jsstring jsstring
  | ShowWarningMessage jsstring
  | ShowErrorMessage jsstring
  | ShowTextDocument Uri
  | SelectLine nat

text \<open>
  The file system maps the absolute, normalized path of a file to its content; a path
  given to \<open>existsSync\<close>, \<open>readFile\<close> or \<open>writeFileSync\<close> is resolved against the
  working directory. Directories, links and permissions are left out: a write succeeds.
  \<open>workspaceFiles\<close> is what \<open>workspace.findFiles('**/*')\<close> yields, \<open>activeTextEditor\<close>
  the \<open>fileName\<close> of the document of \<open>window.activeTextEditor\<close>, \<open>unicode\<close> the case
  mapping of the engine in the locale of the host.
\<close>

record host =
  fs :: "jsstring \<rightharpoonup> jsstring"
  cwd :: jsstring
  workspaceFiles :: "Uri list"
  workspaceFolders :: "Uri list option"
  activeTextEditor :: "jsstring option"
  unicode :: caseMapping
  trace :: "event list"

datatype error = IOFailure jsstring | TypeError

definition emit :: "event \<Rightarrow> host \<Rightarrow> host" where
  "emit e h = h\<lparr>trace := trace h @ [e]\<rparr>"

definition findFiles :: "host \<Rightarrow> Uri list \<times> host" where
  "findFiles h = (workspaceFiles h, emit FindFiles h)"

definition existsSync :: "host \<Rightarrow> jsstring \<Rightarrow> bool \<times> host" where
  "existsSync h p = (fs h (resolve (cwd h) [p]) \<noteq> None, emit (ExistsSync p) h)"

definition readFile :: "host \<Rightarrow> jsstring \<Rightarrow> jsstring option \<times> host" where
  "readFile h p = (fs h (resolve (cwd h) [p]), emit (ReadFile p) h)"

definition writeFileSync :: "host \<Rightarrow> jsstring \<Rightarrow> jsstring \<Rightarrow> host" where
  "writeFileSync h p contents =
     emit (WriteFileSync p contents) (h\<lparr>fs := (fs h)(resolve (cwd h) [p] \<mapsto> contents)\<rparr>)"

definition showWarningMessage :: "host \<Rightarrow> jsstring \<Rightarrow> host" where
  "showWarningMessage h m = emit (ShowWarningMessage m) h"


text \<open>
  \<open>window.showTextDocument(uri)\<close>: when there is a file at the path of the \<open>Uri\<close>, its
  document becomes the one of the active editor and the promise is fulfilled; otherwise
  the promise is rejected. The result says whether it was fulfilled.
\<close>

definition showTextDocument :: "host \<Rightarrow> Uri \<Rightarrow> bool \<times> host" where
  "showTextDocument h u =
     (let opened = (fs h (resolve (cwd h) [fsPath u]) \<noteq> None)
      in (opened,
          emit (ShowTextDocument u)
            (if opened then h\<lparr>activeTextEditor := Some (fsPath u)\<rparr> else h)))"

section \<open>NoteWorkspace: configuration and name normalization\<close>

datatype NoteCompletionConvention = rawFilename | noExtension | toSpaces

datatype WorkspaceFilenameConvention = uniqueFilenames | relativePaths

datatype SlugifyCharacter = dash | underscore | none

record Config =
  createNoteOnGoToDefinitionWhenMissing :: bool
  defaultFileExtension :: jsstring
  noteCompletionConvention :: NoteCompletionConvention
  slugifyCharacter :: SlugifyCharacter
  workspaceFilenameConvention :: WorkspaceFilenameConvention

text \<open>The string value of each member of the enum \<open>SlugifyCharacter\<close>.\<close>

fun SlugifyCharacter_value :: "SlugifyCharacter \<Rightarrow> jsstring" where
  "SlugifyCharacter_value dash = [45]"
| "SlugifyCharacter_value underscore = [95]"
| "SlugifyCharacter_value none = [78, 79, 78, 69]"

definition slugifyChar :: "Config \<Rightarrow> jsstring" where
  "slugifyChar cfg = SlugifyCharacter_value (slugifyCharacter cfg)"

definition SLUGIFY_NONE :: jsstring where
  "SLUGIFY_NONE = [78, 79, 78, 69]"

text \<open>\<open>_rxFileExtensions = '\\.(md|markdown|mdx|fountain)$'\<close>, compiled with the flag \<open>i\<close>.\<close>

definition rxFileExtensions :: "jsstring list" where
  "rxFileExtensions =
     [[109, 100],
      [109, 97, 114, 107, 100, 111, 119, 110],
      [109, 100, 120],
      [102, 111, 117, 110, 116, 97, 105, 110]]"

definition matchesFileExtensions :: "jsstring \<Rightarrow> bool" where
  "matchesFileExtensions s = (extensionAtEnd True rxFileExtensions s \<noteq> None)"

definition useUniqueFilenames :: "Config \<Rightarrow> bool" where
  "useUniqueFilenames cfg = (workspaceFilenameConvention cfg = uniqueFilenames)"

text \<open>\<open>noteName.replace(rxFileExtensions(), '')\<close>.\<close>

definition stripExtension :: "jsstring \<Rightarrow> jsstring" where
  "stripExtension noteName =
     (case extensionAtEnd True rxFileExtensions noteName of
        None \<Rightarrow> noteName
      | Some e \<Rightarrow> take (length noteName - Suc (length e)) noteName)"

text \<open>\<open>s.replace(/[-_]*$/, '')\<close>: the trailing run of \<open>-\<close> and \<open>_\<close> is removed.\<close>

definition stripTrailingSeparators :: "jsstring \<Rightarrow> jsstring" where
  "stripTrailingSeparators s = rev (dropWhile (\<lambda>c. c = 45 \<or> c = 95) (rev s))"

definition slugifyTitle :: "Config \<Rightarrow> jsstring \<Rightarrow> jsstring" where
  "slugifyTitle cfg title =
     stripTrailingSeparators (toLowerCase (replaceNonWordRuns (slugifyChar cfg) title))"

text \<open>\<open>noteName.replace(/[\[\]]/g, '')\<close>, then \<open>basename\<close>, \<open>stripExtension\<close>, \<open>slugifyTitle\<close>.\<close>

definition normalizeNoteNameForFuzzyMatch :: "Config \<Rightarrow> jsstring \<Rightarrow> jsstring" where
  "normalizeNoteNameForFuzzyMatch cfg noteName =
     (let n = filter (\<lambda>c. c \<noteq> 91 \<and> c \<noteq> 93) noteName;
          n = basename n;
          n = stripExtension n;
          n = slugifyTitle cfg n
      in n)"

definition noteNamesFuzzyMatch :: "Config \<Rightarrow> jsstring \<Rightarrow> jsstring \<Rightarrow> bool" where
  "noteNamesFuzzyMatch cfg left right =
     (normalizeNoteNameForFuzzyMatch cfg left = normalizeNoteNameForFuzzyMatch cfg right)"

definition noteFileNameFromTitle :: "Config \<Rightarrow> jsstring \<Rightarrow> jsstring" where
  "noteFileNameFromTitle cfg title =
     (let t = (if slugifyChar cfg = SLUGIFY_NONE then title else slugifyTitle cfg title)
      in if matchesFileExtensions t then t else t @ [46] @ defaultFileExtension cfg)"

section \<open>Shapes of normalized names\<close>

text \<open>
  A string is \<open>slugged\<close> when each of its non-word code units is a single \<open>-\<close>
  standing before a word character or at the end.
\<close>

fun slugged :: "jsstring \<Rightarrow> bool" where
  "slugged [] = True"
| "slugged (c # cs) =
     (if isWordChar c then slugged cs
      else c = 45 \<and> (case cs of [] \<Rightarrow> True | d # _ \<Rightarrow> isWordChar d) \<and> slugged cs)"

text \<open>The shape of a slugified title.\<close>

definition slugForm :: "Config \<Rightarrow> jsstring \<Rightarrow> bool" where
  "slugForm cfg y =
     ((if slugifyCharacter cfg = dash then slugged y else list_all isWordChar y)
      \<and> toLowerCase y = y \<and> stripTrailingSeparators y = y)"

section \<open>extension.ts: tokens and the lexical scanner\<close>

text \<open>
  The settings as \<open>extension.ts\<close> reads them: the convention is a string or
  undefined, and the create-on-missing setting is read through \<open>!!\<close>, so only its
  truthiness counts.
\<close>

record Settings =
  setting_workspaceFilenameConvention :: "jsstring option"
  setting_createNoteOnGoToDefinitionWhenMissing :: bool

definition ext_workspaceFilenameConvention :: "Settings \<Rightarrow> jsstring option" where
  "ext_workspaceFilenameConvention st = setting_workspaceFilenameConvention st"

definition ext_useUniqueFilenames :: "Settings \<Rightarrow> bool" where
  "ext_useUniqueFilenames st =
     (ext_workspaceFilenameConvention st = Some (js ''uniqueFilenames''))"

definition ext_useRelativePaths :: "Settings \<Rightarrow> bool" where
  "ext_useRelativePaths st =
     (ext_workspaceFilenameConvention st = Some (js ''relativePaths''))"

definition ext_createNoteOnGoToDefinitionWhenMissing :: "Settings \<Rightarrow> bool" where
  "ext_createNoteOnGoToDefinitionWhenMissing st =
     setting_createNoteOnGoToDefinitionWhenMissing st"

text \<open>The enum \<open>ContextWordType\<close> and the number of each member.\<close>

datatype ContextWordType = Null | WikiLink | Tag

fun ContextWordType_value :: "ContextWordType \<Rightarrow> nat" where
  "ContextWordType_value Null = 0"
| "ContextWordType_value WikiLink = 1"
| "ContextWordType_value Tag = 2"

text \<open>
  The interface \<open>ContextWord\<close>; \<open>null\<close> and \<open>undefined\<close> are \<open>None\<close>. The \<open>Ref\<close>
  of the definition provider of the later sources is declared in a file that is not at
  hand; the provider reads its fields \<open>type\<close> and \<open>word\<close> only, and the same record
  stands for it.
\<close>

record ContextWord =
  type :: ContextWordType
  word :: jsstring
  hasExtension :: "bool option"
  word_range :: "Range option"

definition NULL_CONTEXT_WORD :: ContextWord where
  "NULL_CONTEXT_WORD = \<lparr>type = Null, word = [], hasExtension = None, word_range = None\<rparr>"

text \<open>
  The regular expressions of the scanner. \<open>TAG_REGEX_WITH_ANCHORS = /^\#[\w\-\_]+$/i\<close>
  matches a whole word; \<open>TAG_REGEX___NO_ANCHORS\<close> and
  \<open>WIKI_LINK_REGEX = /\[\[[\w\.\-\_\/\\]+/i\<close> are given to the editor, which looks for
  a match around the cursor.
\<close>

definition isTagChar :: "nat \<Rightarrow> bool" where
  "isTagChar c = (isWordChar c \<or> c = 45)"

definition isWikiLinkChar :: "nat \<Rightarrow> bool" where
  "isWikiLinkChar c = (isWordChar c \<or> c = 46 \<or> c = 45 \<or> c = 47 \<or> c = 92)"

definition matches_TAG_REGEX_WITH_ANCHORS :: "jsstring \<Rightarrow> bool" where
  "matches_TAG_REGEX_WITH_ANCHORS w =
     (case w of [] \<Rightarrow> False | c # cs \<Rightarrow> c = 35 \<and> cs \<noteq> [] \<and> list_all isTagChar cs)"

text \<open>A text is a match of \<open>WIKI_LINK_REGEX\<close>, as long as the expression can make it.\<close>

definition isWikiLinkMatch :: "jsstring \<Rightarrow> bool" where
  "isWikiLinkMatch m =
     (take 2 m = [91, 91] \<and> drop 2 m \<noteq> [] \<and> list_all isWikiLinkChar (drop 2 m))"

datatype RegExp = TAG_REGEX___NO_ANCHORS | WIKI_LINK_REGEX

text \<open>The extensions of the expression \<open>/\.(md|markdown)/\<close> that \<open>extension.ts\<close> uses.\<close>

definition ext_extensions :: "jsstring list" where
  "ext_extensions = [[109, 100], [109, 97, 114, 107, 100, 111, 119, 110]]"

text \<open>
  \<open>getContextWord(document, position)\<close>. The second argument is
  \<open>document.getWordRangeAtPosition(position, \<cdot>)\<close>, the answer of the editor for each
  of the two expressions.
\<close>

definition getContextWord :: "TextDocument \<Rightarrow> (RegExp \<Rightarrow> Range option) \<Rightarrow> ContextWord" where
  "getContextWord document getWordRangeAtPosition =
     (let tag =
        (case getWordRangeAtPosition TAG_REGEX___NO_ANCHORS of
           None \<Rightarrow> None
         | Some rng \<Rightarrow>
             (let contextWord = getText document rng
              in if contextWord \<noteq> []
                 then Some \<lparr>type = Tag, word = dropWhile (\<lambda>c. c = 35) contextWord,
                            hasExtension = None, word_range = Some rng\<rparr>
                 else None))
      in case tag of
           Some cw \<Rightarrow> cw
         | None \<Rightarrow>
             (case getWordRangeAtPosition WIKI_LINK_REGEX of
                None \<Rightarrow> NULL_CONTEXT_WORD
              | Some rng \<Rightarrow>
                  (let s = Position (line (range_start rng)) (character (range_start rng) + 2);
                       r = new_Range s (range_end rng);
                       contextWord = getText document r
                   in if contextWord \<noteq> []
                      then \<lparr>type = WikiLink, word = contextWord,
                            hasExtension = Some (extensionAnywhere ext_extensions contextWord),
                            word_range = Some r\<rparr>
                      else NULL_CONTEXT_WORD)))"

section \<open>extension.ts: occurrence search\<close>

text \<open>
  The match of \<open>\S+\s+\<close> at the start of a text: the longest run of non-space code
  units, then the longest run of space code units, both non-empty; the result is the
  matched text and the rest. The two classes are complements, so giving back a code
  unit of the first run never helps and there is no other match at this place.
\<close>

definition matchWordThenSpaces :: "jsstring \<Rightarrow> (jsstring \<times> jsstring) option" where
  "matchWordThenSpaces s =
     (let w = takeWhile (\<lambda>c. \<not> isSpace c) s;
          r = dropWhile (\<lambda>c. \<not> isSpace c) s;
          sp = takeWhile isSpace r
      in if w \<noteq> [] \<and> sp \<noteq> [] then Some (w @ sp, dropWhile isSpace r) else None)"

text \<open>
  \<open>line.split(/(\S+\s+)/)\<close>. The search for the next separator moves on by one code
  unit while the expression does not match; at a match, the piece before it and the
  captured match itself are both put out. \<open>piece\<close> is the text passed over since the
  last match.
\<close>

function splitWordsKeepingSpaces :: "jsstring \<Rightarrow> jsstring \<Rightarrow> jsstring list" where
  "splitWordsKeepingSpaces piece [] = [piece]"
| "splitWordsKeepingSpaces piece (c # cs) =
     (case matchWordThenSpaces (c # cs) of
        Some (m, rest) \<Rightarrow> piece # m # splitWordsKeepingSpaces [] rest
      | None \<Rightarrow> splitWordsKeepingSpaces (piece @ [c]) cs)"
  by pat_completeness auto
termination
proof (relation "measure (\<lambda>(piece, s). length s)")
  show "wf (measure (\<lambda>(piece, s). length s))" by simp
next
  fix piece :: jsstring and c cs x2 x y
  assume "matchWordThenSpaces (c # cs) = Some x2" and "(x, y) = x2"
  then have "y = dropWhile isSpace (dropWhile (\<lambda>c. \<not> isSpace c) (c # cs))"
    and "\<not> isSpace c"
    by (auto simp: matchWordThenSpaces_def Let_def split: if_splits)
  then have "y = dropWhile isSpace (dropWhile (\<lambda>c. \<not> isSpace c) cs)" by simp
  moreover have "length (dropWhile isSpace (dropWhile (\<lambda>c. \<not> isSpace c) cs)) \<le> length cs"
    by (meson length_dropWhile_le order_trans)
  ultimately show "(([], y), piece, c # cs) \<in> measure (\<lambda>(piece, s). length s)" by simp
next
  fix piece :: jsstring and c cs
  show "((piece @ [c], cs), piece, c # cs) \<in> measure (\<lambda>(piece, s). length s)" by simp
qed

text \<open>
  The body of \<open>words.map\<close>: \<open>charNum\<close> is the column where the word \<open>w\<close> starts;
  a word whose trimmed text is the query gives one range on line \<open>lineNum\<close>.
\<close>

fun rangesForWords :: "jsstring \<Rightarrow> nat \<Rightarrow> nat \<Rightarrow> jsstring list \<Rightarrow> Range list" where
  "rangesForWords queryWord lineNum charNum [] = []"
| "rangesForWords queryWord lineNum charNum (w # ws) =
     (let spacesBefore = length w - length (trimLeft w);
          trimmed = trim w
      in (if trimmed = queryWord
          then [new_Range (Position lineNum (charNum + spacesBefore))
                          (Position lineNum (charNum + spacesBefore + length trimmed))]
          else [])
         @ rangesForWords queryWord lineNum (charNum + length w) ws)"

definition rangesForLine :: "jsstring \<Rightarrow> nat \<Rightarrow> jsstring \<Rightarrow> Range list" where
  "rangesForLine queryWord lineNum line' =
     rangesForWords queryWord lineNum 0 (splitWordsKeepingSpaces [] line')"

definition isLineBreak :: "nat \<Rightarrow> bool" where
  "isLineBreak c = (c = 13 \<or> c = 10)"

text \<open>
  \<open>ReferenceSearch.rangesForWordInDocumentData(queryWord, data)\<close>; \<open>None\<close> is the
  query \<open>null\<close>, which the test \<open>!queryWord\<close> turns away like the empty string.
\<close>

definition rangesForWordInDocumentData :: "jsstring option \<Rightarrow> jsstring \<Rightarrow> Range list" where
  "rangesForWordInDocumentData queryWord data =
     (case queryWord of
        None \<Rightarrow> []
      | Some q \<Rightarrow>
          if q = [] then []
          else concat (map (\<lambda>(lineNum, line'). rangesForLine q lineNum line')
                           (enumerate 0 (splitOn isLineBreak data))))"

text \<open>
  The query of \<open>ReferenceSearch.search\<close>. The second test is the assignment
  \<open>contextWord.type = ContextWordType.WikiLink\<close>: the token gets the type \<open>WikiLink\<close>
  and the test reads the number assigned. \<open>None\<close> is the branch \<open>return []\<close>.
\<close>

definition searchQuery :: "ContextWord \<Rightarrow> (jsstring \<times> ContextWord) option" where
  "searchQuery contextWord =
     (if type contextWord = Tag then Some (35 # word contextWord, contextWord)
      else
        (let contextWord = contextWord\<lparr>type := WikiLink\<rparr>
         in if ContextWordType_value (type contextWord) \<noteq> 0
            then Some ([91, 91] @ basename (word contextWord) @ [93, 93], contextWord)
            else None))"

text \<open>\<open>(f) => f.scheme == 'file' && f.path.match(/\.(md|markdown)/i)\<close>.\<close>

definition ext_isNoteFile :: "Uri \<Rightarrow> bool" where
  "ext_isNoteFile f = (scheme f = js ''file'' \<and> extensionAnywhere ext_extensions (path f))"

text \<open>
  The reads of \<open>Promise.all(paths.map((p) => fsp.readFile(p)))\<close>: every read is
  started, in the order of the paths.
\<close>

fun readFiles :: "host \<Rightarrow> jsstring list \<Rightarrow> jsstring option list \<times> host" where
  "readFiles h [] = ([], h)"
| "readFiles h (p # ps) =
     (case readFile h p of
        (d, h') \<Rightarrow> (case readFiles h' ps of (ds, h'') \<Rightarrow> (d # ds, h'')))"

text \<open>The locations of the query in one file that was read.\<close>

definition locationsInFile :: "jsstring \<Rightarrow> jsstring \<Rightarrow> jsstring \<Rightarrow> Location list" where
  "locationsInFile query p data =
     map (\<lambda>r. Location (Uri_file p) r) (rangesForWordInDocumentData (Some query) data)"

text \<open>
  \<open>ReferenceSearch.search(contextWord)\<close>. When a read fails the promise of
  \<open>Promise.all\<close> is rejected with the first failure and no location is returned.
\<close>

definition search :: "host \<Rightarrow> ContextWord \<Rightarrow> (error + Location list) \<times> host" where
  "search h contextWord =
     (case searchQuery contextWord of
        None \<Rightarrow> (Inr [], h)
      | Some (query, _) \<Rightarrow>
          (case findFiles h of
             (found, h1) \<Rightarrow>
               (let files = filter ext_isNoteFile found;
                    paths = map path files
                in case readFiles h1 paths of
                     (fileBuffers, h2) \<Rightarrow>
                       (case find (\<lambda>(p, d). d = None) (zip paths fileBuffers) of
                          Some (p, _) \<Rightarrow> (Inl (IOFailure p), h2)
                        | None \<Rightarrow>
                            (Inr (concat (map (\<lambda>(p, d). locationsInFile query p (the d))
                                              (zip paths fileBuffers))), h2)))))"

text \<open>
  The words of a line as the specification describes them: the maximal runs of
  non-space code units, each with the column where it starts. \<open>col\<close> is the column of
  the first code unit of the text.
\<close>

function wordsWithColumns :: "nat \<Rightarrow> jsstring \<Rightarrow> (nat \<times> jsstring) list" where
  "wordsWithColumns col [] = []"
| "wordsWithColumns col (c # cs) =
     (if isSpace c then wordsWithColumns (Suc col) cs
      else (col, c # takeWhile (\<lambda>d. \<not> isSpace d) cs)
           # wordsWithColumns (Suc col + length (takeWhile (\<lambda>d. \<not> isSpace d) cs))
                              (dropWhile (\<lambda>d. \<not> isSpace d) cs))"
  by pat_completeness auto
termination
  by (relation "measure (\<lambda>(col, s). length s)")
     (auto simp: le_imp_less_Suc length_dropWhile_le)

text \<open>
  The occurrences of a query in a text, in the words of the specification: on every
  line, one span for every word equal to the query, from the column where the word
  starts to that column plus the length of the word.
\<close>

definition rangesOf :: "jsstring \<Rightarrow> nat \<Rightarrow> (nat \<times> jsstring) list \<Rightarrow> Range list" where
  "rangesOf q lineNum ws =
     map (\<lambda>(c, w). Range (Position lineNum c) (Position lineNum (c + length w)))
         (filter (\<lambda>(c, w). w = q) ws)"

definition occurrences :: "jsstring \<Rightarrow> jsstring \<Rightarrow> Range list" where
  "occurrences q data =
     concat (map (\<lambda>(lineNum, line'). rangesOf q lineNum (wordsWithColumns 0 line'))
                 (enumerate 0 (splitOn isLineBreak data)))"

text \<open>The paths of the files that \<open>search\<close> reads, in the order of the enumeration.\<close>

definition searchPaths :: "host \<Rightarrow> jsstring list" where
  "searchPaths h = map path (filter ext_isNoteFile (workspaceFiles h))"

section \<open>extension.ts: title case\<close>

text \<open>\<open>capitalize\<close>: \<open>word[0].toUpperCase()\<close>, then \<open>word.slice(1)\<close>.\<close>

definition capitalize :: "caseMapping \<Rightarrow> jsstring \<Rightarrow> jsstring" where
  "capitalize cm w = (case w of [] \<Rightarrow> [] | c # cs \<Rightarrow> toUpperCaseOf cm [c] @ cs)"

text \<open>
  The template literal of \<open>titleCase\<close>: it starts with a line feed, its lines are
  separated by line feeds and it ends with a line feed and two spaces.
\<close>

definition chicagoStyleNoCapText :: jsstring where
  "chicagoStyleNoCapText =
     [10] @ js ''a aboard about above across after against along amid among an and anti around as at before behind''
     @ [10] @ js ''below beneath beside besides between beyond but by concerning considering despite down during except''
     @ [10] @ js ''excepting excluding following for from in inside into like minus near of off on onto opposite or''
     @ [10] @ js ''outside over past per plus regarding round save since so than the through to toward towards under''
     @ [10] @ js ''underneath unlike until up upon versus via with within without yet''
     @ [10, 32, 32]"

definition chicagoStyleNoCap :: "jsstring list" where
  "chicagoStyleNoCap = splitOn isSpace chicagoStyleNoCapText"

text \<open>The function given to \<open>words.map\<close>; \<open>n\<close> is \<open>words.length\<close>.\<close>

definition titleCaseWord :: "caseMapping \<Rightarrow> nat \<Rightarrow> nat \<Rightarrow> jsstring \<Rightarrow> jsstring" where
  "titleCaseWord cm n i w =
     (if i = 0 \<or> int i = int n - 1 then capitalize cm w
      else if toLocaleLowerCaseOf cm w \<in> set chicagoStyleNoCap then w
      else capitalize cm w)"

definition titleCase :: "caseMapping \<Rightarrow> jsstring \<Rightarrow> jsstring" where
  "titleCase cm sentence =
     (if sentence = [] then sentence
      else
        (let ws = splitOn isSpace sentence
         in join_with [32] (map (\<lambda>(i, w). titleCaseWord cm (length ws) i w) (enumerate 0 ws))))"

text \<open>\<open>s.replace(/\s+/, ' ')\<close>: the first run of space code units becomes one space.\<close>

definition replaceFirstSpaceRun :: "jsstring \<Rightarrow> jsstring" where
  "replaceFirstSpaceRun s =
     (let r = dropWhile (\<lambda>c. \<not> isSpace c) s
      in if r = [] then s
         else takeWhile (\<lambda>c. \<not> isSpace c) s @ [32] @ dropWhile isSpace r)"

text \<open>
  \<open>titleCaseFilename\<close>; its first expression \<open>/\.(md|markdown)$/\<close> has no flag \<open>i\<close>.
\<close>

definition titleCaseFilename :: "caseMapping \<Rightarrow> jsstring \<Rightarrow> jsstring" where
  "titleCaseFilename cm filename =
     (if filename = [] then filename
      else
        (let a = (case extensionAtEnd False ext_extensions filename of
                    None \<Rightarrow> filename
                  | Some e \<Rightarrow> take (length filename - Suc (length e)) filename);
             b = map (\<lambda>c. if c = 45 \<or> c = 95 then 32 else c) a
         in titleCase cm (replaceFirstSpaceRun b)))"

section \<open>extension.ts: the definition provider and the new-note command\<close>

definition convention_warning :: jsstring where
  "convention_warning =
     js ''createNoteOnGoToDefinitionWhenMissing only works when vscodeMarkdownNotes.workspaceFilenameConvention = ''
     @ [39] @ js ''uniqueFilenames'' @ [39]"

text \<open>The first content of a note: \<open>`# ${title}\n\n`\<close>.\<close>

definition noteContents :: "jsstring \<Rightarrow> jsstring" where
  "noteContents title = [35, 32] @ title @ [10, 10]"

text \<open>\<open>MarkdownDefinitionProvider.createMissingNote\<close> of \<open>extension.ts\<close>.\<close>

definition ext_createMissingNote :: "Settings \<Rightarrow> host \<Rightarrow> ContextWord \<Rightarrow> jsstring option \<times> host" where
  "ext_createMissingNote st h contextWord =
     (if type contextWord \<noteq> WikiLink then (None, h)
      else if \<not> ext_createNoteOnGoToDefinitionWhenMissing st then (None, h)
      else
        (case activeTextEditor h of
           None \<Rightarrow> (None, h)
         | Some filename \<Rightarrow>
             if \<not> ext_useUniqueFilenames st
             then (None, showWarningMessage h convention_warning)
             else
               (let mdFilename =
                      (if extensionAtEnd True ext_extensions (word contextWord) \<noteq> None
                       then word contextWord
                       else word contextWord @ js ''.md'');
                    p = dirname filename @ [47] @ mdFilename;
                    title = titleCaseFilename (unicode h) (word contextWord)
                in (Some p, writeFileSync h p (noteContents title)))))"

text \<open>
  \<open>MarkdownDefinitionProvider.provideDefinition\<close> of \<open>extension.ts\<close>. The steps after
  the two guards are written one by one, each with the files found so far.
\<close>

definition ext_basenameStep :: "Settings \<Rightarrow> host \<Rightarrow> jsstring \<Rightarrow> Uri list \<times> host" where
  "ext_basenameStep st h selectedWord =
     (if ext_useUniqueFilenames st
      then (case findFiles h of
              (found, h') \<Rightarrow> (filter (\<lambda>f. basename (path f) = selectedWord) found, h'))
      else ([], h))"

definition relativePathStep :: "host \<Rightarrow> jsstring \<Rightarrow> jsstring \<Rightarrow> Uri list \<Rightarrow> Uri list \<times> host" where
  "relativePathStep h documentPath selectedWord files =
     (if files = []
      then (let fromDir = dirname documentPath;
                absPath = resolve (cwd h) [fromDir, selectedWord]
            in case existsSync h absPath of
                 (found, h') \<Rightarrow> (if found then [Uri_file absPath] else [], h'))
      else (files, h))"

definition ext_createStep :: "Settings \<Rightarrow> host \<Rightarrow> ContextWord \<Rightarrow> Uri list \<Rightarrow> Uri list \<times> host" where
  "ext_createStep st h contextWord files =
     (if files = []
      then (case ext_createMissingNote st h contextWord of
              (None, h') \<Rightarrow> ([], h')
            | (Some p, h') \<Rightarrow> ([Uri_parse (js ''file://'' @ p)], h'))
      else (files, h))"

definition ext_provideDefinition ::
    "Settings \<Rightarrow> host \<Rightarrow> TextDocument \<Rightarrow> (RegExp \<Rightarrow> Range option) \<Rightarrow> Location list \<times> host" where
  "ext_provideDefinition st h document getWordRangeAtPosition =
     (let contextWord = getContextWord document getWordRangeAtPosition
      in if type contextWord \<noteq> WikiLink then ([], h)
         else if hasExtension contextWord \<noteq> Some True then ([], h)
         else
           (case ext_basenameStep st h (word contextWord) of
              (files1, h1) \<Rightarrow>
                (case relativePathStep h1 (path (document_uri document)) (word contextWord) files1 of
                   (files2, h2) \<Rightarrow>
                     (case ext_createStep st h2 contextWord files2 of
                        (files3, h3) \<Rightarrow>
                          (map (\<lambda>f. Location_at f (Position 0 0)) files3, h3)))))"







section \<open>extension.ts: the tag list of the workspace\<close>

text \<open>
  The static fields of \<open>WorkspaceTagList\<close>, and what is in flight around them: the
  calls of \<open>initSet\<close> suspended at \<open>await workspace.findFiles\<close>, the paths given to
  \<open>readFile\<close> whose callback has not run yet, and the number of scans that were
  started.
\<close>

record WorkspaceTagList =
  TAG_WORD_SET :: "jsstring set"
  STARTED_INIT :: bool
  COMPLETED_INIT :: bool
  suspended :: nat
  pendingReads :: "jsstring list"
  scans :: nat

definition WorkspaceTagList_initial :: WorkspaceTagList where
  "WorkspaceTagList_initial =
     \<lparr>TAG_WORD_SET = {}, STARTED_INIT = False, COMPLETED_INIT = False,
      suspended = 0, pendingReads = [], scans = 0\<rparr>"

text \<open>
  The steps of the event loop that reach the tag list: a call of \<open>initSet\<close> up to its
  \<open>await\<close>; the enumeration settling, after which \<open>initSet\<close> starts one read for every
  note file and sets \<open>COMPLETED_INIT\<close>; the callback of one read, with the content read or
  with an error; and a completion request, which reads the set.
\<close>

datatype tagEvent =
    InitSet
  | FindFilesSettled "Uri list"
  | ReadFileCallback jsstring "jsstring option"
  | ProvideCompletionItems

text \<open>The callback of \<open>readFile\<close>: the words of the data that are tags.\<close>

definition tagsOfData :: "jsstring option \<Rightarrow> jsstring list" where
  "tagsOfData data =
     (let allWords = splitOn isSpace (case data of None \<Rightarrow> [] | Some d \<Rightarrow> d)
      in filter matches_TAG_REGEX_WITH_ANCHORS allWords)"

fun fire :: "WorkspaceTagList \<Rightarrow> tagEvent \<Rightarrow> WorkspaceTagList" where
  "fire s InitSet =
     (if STARTED_INIT s then s
      else s\<lparr>STARTED_INIT := True, suspended := Suc (suspended s), scans := Suc (scans s)\<rparr>)"
| "fire s (FindFilesSettled found) =
     (if suspended s = 0 then s
      else s\<lparr>suspended := suspended s - 1,
              pendingReads := pendingReads s @ map path (filter ext_isNoteFile found),
              COMPLETED_INIT := True\<rparr>)"
| "fire s (ReadFileCallback p data) =
     (if p \<in> set (pendingReads s)
      then s\<lparr>pendingReads := remove1 p (pendingReads s),
              TAG_WORD_SET := TAG_WORD_SET s \<union> set (tagsOfData data)\<rparr>
      else s)"
| "fire s ProvideCompletionItems = s"

definition run :: "WorkspaceTagList \<Rightarrow> tagEvent list \<Rightarrow> WorkspaceTagList" where
  "run s evs = foldl fire s evs"

section \<open>The definition provider and the new-note command of NoteWorkspace\<close>

text \<open>\<open>NoteWorkspace.noteFiles()\<close>.\<close>

definition isNoteFile :: "Uri \<Rightarrow> bool" where
  "isNoteFile f = (scheme f = js ''file'' \<and> matchesFileExtensions (path f))"

definition noteFiles :: "host \<Rightarrow> Uri list \<times> host" where
  "noteFiles h = (case findFiles h of (found, h') \<Rightarrow> (filter isNoteFile found, h'))"

text \<open>
  \<open>MarkdownDefinitionProvider.createMissingNote(ref)\<close>. \<open>titleCaseFilename\<close> is
  imported from a file that is not at hand; \<open>extension.ts\<close> has a function of this
  name, which is taken for it.
\<close>

definition createMissingNote :: "Config \<Rightarrow> host \<Rightarrow> ContextWord \<Rightarrow> jsstring option \<times> host" where
  "createMissingNote cfg h ref =
     (if type ref \<noteq> WikiLink then (None, h)
      else if \<not> createNoteOnGoToDefinitionWhenMissing cfg then (None, h)
      else
        (case activeTextEditor h of
           None \<Rightarrow> (None, h)
         | Some filename \<Rightarrow>
             if \<not> useUniqueFilenames cfg
             then (None, showWarningMessage h convention_warning)
             else
               (let mdFilename = noteFileNameFromTitle cfg (word ref);
                    p = join [dirname filename, mdFilename];
                    title = titleCaseFilename (unicode h) (word ref)
                in (Some p, writeFileSync h p (noteContents title)))))"

text \<open>
  \<open>MarkdownDefinitionProvider.provideDefinition\<close>. \<open>ref\<close> is the token that
  \<open>getRefAt(document, position)\<close> returns; \<open>getRefAt\<close> is in a file that is not at hand.
\<close>

definition fuzzyMatchStep :: "Config \<Rightarrow> host \<Rightarrow> ContextWord \<Rightarrow> Uri list \<times> host" where
  "fuzzyMatchStep cfg h ref =
     (if useUniqueFilenames cfg
      then (case noteFiles h of
              (notes, h') \<Rightarrow>
                (filter (\<lambda>f. noteNamesFuzzyMatch cfg (fsPath f) (word ref)) notes, h'))
      else ([], h))"

definition createStep :: "Config \<Rightarrow> host \<Rightarrow> ContextWord \<Rightarrow> Uri list \<Rightarrow> Uri list \<times> host" where
  "createStep cfg h ref files =
     (if files = []
      then (case createMissingNote cfg h ref of
              (None, h') \<Rightarrow> ([], h')
            | (Some p, h') \<Rightarrow> ([Uri_file p], h'))
      else (files, h))"

definition provideDefinition ::
    "Config \<Rightarrow> host \<Rightarrow> TextDocument \<Rightarrow> ContextWord \<Rightarrow> Location list \<times> host" where
  "provideDefinition cfg h document ref =
     (if type ref \<noteq> WikiLink then ([], h)
      else
        (case fuzzyMatchStep cfg h ref of
           (files1, h1) \<Rightarrow>
             (case relativePathStep h1 (fsPath (document_uri document)) (word ref) files1 of
                (files2, h2) \<Rightarrow>
                  (case createStep cfg h2 ref files2 of
                     (files3, h3) \<Rightarrow>
                       (map (\<lambda>f. Location_at f (Position 0 0)) files3, h3)))))"


section \<open>A small workspace\<close>

text \<open>A host with two notes and a text file, for running the operations.\<close>

definition note_a :: jsstring where
  "note_a = js ''#urgent one'' @ [10] @ js ''  do #urgent now''"

definition note_b :: jsstring where
  "note_b = js ''see [[a.md]] and [[]]''"

definition demo_host :: host where
  "demo_host =
     \<lparr>fs = [js ''/notes/a.md'' \<mapsto> note_a, js ''/notes/b.md'' \<mapsto> note_b],
      cwd = js ''/'',
      workspaceFiles = [Uri_file (js ''/notes/a.md''), Uri_file (js ''/notes/b.md''),
                        Uri_file (js ''/notes/c.txt'')],
      workspaceFolders = Some [Uri_file (js ''/notes'')],
      activeTextEditor = Some (js ''/notes/a.md''),
      unicode = basicLatinCase,
      trace = []\<rparr>"

definition urgent_tag :: ContextWord where
  "urgent_tag = \<lparr>type = Tag, word = js ''urgent'', hasExtension = None, word_range = None\<rparr>"

text \<open>Steps of the tag list: two calls of \<open>initSet\<close>, the enumeration, one read, one more call.\<close>

definition demo_events :: "tagEvent list" where
  "demo_events =
     [InitSet, InitSet,
      FindFilesSettled [Uri_file (js ''/notes/a.md''), Uri_file (js ''/notes/c.txt'')],
      ReadFileCallback (js ''/notes/a.md'') (Some (js ''#a b #c-d e#f'')),
      InitSet]"

text \<open>\<open>NoteWorkspace.DEFAULT_CONFIG\<close>, and the same with the other convention.\<close>

definition DEFAULT_CONFIG :: Config where
  "DEFAULT_CONFIG =
     \<lparr>createNoteOnGoToDefinitionWhenMissing = True,
      defaultFileExtension = js ''md'',
      noteCompletionConvention = rawFilename,
      slugifyCharacter = dash,
      workspaceFilenameConvention = uniqueFilenames\<rparr>"

definition relative_config :: Config where
  "relative_config = DEFAULT_CONFIG\<lparr>workspaceFilenameConvention := relativePaths\<rparr>"

text \<open>Settings as \<open>extension.ts\<close> reads them.\<close>

definition unique_settings :: Settings where
  "unique_settings =
     \<lparr>setting_workspaceFilenameConvention = Some (js ''uniqueFilenames''),
      setting_createNoteOnGoToDefinitionWhenMissing = True\<rparr>"

definition unique_settings_no_create :: Settings where
  "unique_settings_no_create =
     unique_settings\<lparr>setting_createNoteOnGoToDefinitionWhenMissing := False\<rparr>"

definition relative_settings :: Settings where
  "relative_settings =
     unique_settings\<lparr>setting_workspaceFilenameConvention := Some (js ''relativePaths'')\<rparr>"


text \<open>The same host with no active editor.\<close>

definition no_editor_host :: host where
  "no_editor_host = demo_host\<lparr>activeTextEditor := None\<rparr>"

text \<open>
  The document \<open>/notes/a.md\<close> as it is open in the editor, with four links on its
  line, and the answers of the editor for a cursor in each of them: no tag is there, and
  the match of \<open>WIKI_LINK_REGEX\<close> around the cursor is \<open>[[c.txt\<close>, \<open>[[b.markdown\<close>,
  \<open>[[foo.md.txt\<close> or \<open>[[b.md\<close>.
\<close>

definition demo_document :: TextDocument where
  "demo_document =
     \<lparr>document_uri = Uri_file (js ''/notes/a.md''),
      document_lines = [js ''see [[c.txt and [[b.markdown or [[foo.md.txt [[b.md'']\<rparr>"

definition at_txt_link :: "RegExp \<Rightarrow> Range option" where
  "at_txt_link rx =
     (case rx of
        TAG_REGEX___NO_ANCHORS \<Rightarrow> None
      | WIKI_LINK_REGEX \<Rightarrow> Some (Range (Position 0 4) (Position 0 11)))"

definition at_markdown_link :: "RegExp \<Rightarrow> Range option" where
  "at_markdown_link rx =
     (case rx of
        TAG_REGEX___NO_ANCHORS \<Rightarrow> None
      | WIKI_LINK_REGEX \<Rightarrow> Some (Range (Position 0 16) (Position 0 28)))"

definition at_foo_link :: "RegExp \<Rightarrow> Range option" where
  "at_foo_link rx =
     (case rx of
        TAG_REGEX___NO_ANCHORS \<Rightarrow> None
      | WIKI_LINK_REGEX \<Rightarrow> Some (Range (Position 0 32) (Position 0 44)))"

definition at_lower_link :: "RegExp \<Rightarrow> Range option" where
  "at_lower_link rx =
     (case rx of
        TAG_REGEX___NO_ANCHORS \<Rightarrow> None
      | WIKI_LINK_REGEX \<Rightarrow> Some (Range (Position 0 45) (Position 0 51)))"

text \<open>Link tokens for the provider of the later sources.\<close>

definition link_ref :: "jsstring \<Rightarrow> ContextWord" where
  "link_ref w = \<lparr>type = WikiLink, word = w, hasExtension = None, word_range = None\<rparr>"

section \<open>Files kept by the new-note command\<close>


section \<open>Name normalization is idempotent\<close>

lemma replace_head_word:
  "(case replaceNonWordRuns sep (dropWhile (\<lambda>d. \<not> isWordChar d) cs) of [] \<Rightarrow> True | d # _ \<Rightarrow> isWordChar d)"
proof (cases "dropWhile (\<lambda>d. \<not> isWordChar d) cs")
  case Nil
  show ?thesis unfolding Nil by simp
next
  case (Cons d ds)
  then have "isWordChar d" using hd_dropWhile[of "\<lambda>d. \<not> isWordChar d" cs] by simp
  then show ?thesis unfolding Cons by simp
qed

lemma slugged_replace_dash: "slugged (replaceNonWordRuns [45] t)"
proof (induction "[45::nat]" t rule: replaceNonWordRuns.induct)
  case 1
  show ?case by simp
next
  case (2 c cs)
  show ?case
  proof (cases "isWordChar c")
    case True
    with 2 show ?thesis by simp
  next
    case False
    with 2 have "slugged (replaceNonWordRuns [45] (dropWhile (\<lambda>d. \<not> isWordChar d) cs))" by simp
    then show ?thesis using False replace_head_word[of "[45]" cs]
      by simp
  qed
qed

lemma allWord_replace:
  "list_all isWordChar sep \<Longrightarrow> list_all isWordChar (replaceNonWordRuns sep t)"
proof (induction sep t rule: replaceNonWordRuns.induct)
  case (1 sep)
  show ?case by simp
next
  case (2 sep c cs)
  then show ?case by (cases "isWordChar c") simp_all
qed

lemma allWord_slugged: "list_all isWordChar y \<Longrightarrow> slugged y"
  by (induction y) simp_all

lemma replace_allWord: "list_all isWordChar y \<Longrightarrow> replaceNonWordRuns sep y = y"
  by (induction y) simp_all

lemma replace_slugged: "slugged y \<Longrightarrow> replaceNonWordRuns [45] y = y"
proof (induction y)
  case Nil
  show ?case by simp
next
  case (Cons c cs)
  show ?case
  proof (cases "isWordChar c")
    case True
    with Cons show ?thesis by simp
  next
    case False
    with Cons.prems have c: "c = 45" and sl: "slugged cs"
      and hd: "(case cs of [] \<Rightarrow> True | d # _ \<Rightarrow> isWordChar d)" by simp_all
    from hd have "dropWhile (\<lambda>d. \<not> isWordChar d) cs = cs" by (cases cs) simp_all
    with False c sl Cons.IH show ?thesis by simp
  qed
qed


lemma slugged_prefix: "slugged (xs @ ys) \<Longrightarrow> slugged xs"
proof (induction xs)
  case Nil
  show ?case by simp
next
  case (Cons c cs)
  then show ?case by (cases cs) (simp_all split: if_splits)
qed

lemma stripTrailingSeparators_prefix:
  "\<exists>zs. s = stripTrailingSeparators s @ zs"
  unfolding stripTrailingSeparators_def
  by (metis rev_append rev_rev_ident takeWhile_dropWhile_id)

lemma stripTrailingSeparators_idem:
  "stripTrailingSeparators (stripTrailingSeparators s) = stripTrailingSeparators s"
  by (simp add: stripTrailingSeparators_def)

lemma isWordChar_lower: "isWordChar (toLowerCaseUnit c) = isWordChar c"
  by (auto simp: isWordChar_def toLowerCaseUnit_def)

lemma lower_eq_dash: "(toLowerCaseUnit c = 45) = (c = 45)"
  by (auto simp: toLowerCaseUnit_def)

lemma lower_idem: "toLowerCaseUnit (toLowerCaseUnit c) = toLowerCaseUnit c"
  by (auto simp: toLowerCaseUnit_def)

lemma slugged_lower: "slugged r \<Longrightarrow> slugged (toLowerCase r)"
proof (induction r)
  case Nil
  show ?case by (simp add: toLowerCase_def)
next
  case (Cons c cs)
  then show ?case
    by (cases cs) (simp_all add: toLowerCase_def isWordChar_lower lower_eq_dash split: if_splits)
qed

lemma slugged_chars: "slugged y \<Longrightarrow> list_all (\<lambda>c. isWordChar c \<or> c = 45) y"
  by (induction y) (simp_all split: if_splits)

lemma allWord_lower: "list_all isWordChar r \<Longrightarrow> list_all isWordChar (toLowerCase r)"
  by (induction r) (simp_all add: toLowerCase_def isWordChar_lower)

lemma allWord_prefix: "list_all isWordChar (xs @ ys) \<Longrightarrow> list_all isWordChar xs"
  by simp

lemma slugged_replace:
  "if slugifyCharacter cfg = dash then slugged (replaceNonWordRuns (slugifyChar cfg) t)
   else list_all isWordChar (replaceNonWordRuns (slugifyChar cfg) t)"
proof (cases "slugifyCharacter cfg")
  case dash
  then show ?thesis by (simp add: slugifyChar_def slugged_replace_dash)
next
  case underscore
  then have "list_all isWordChar (slugifyChar cfg)"
    by (simp add: slugifyChar_def isWordChar_def)
  with underscore show ?thesis by (simp add: allWord_replace)
next
  case none
  then have "list_all isWordChar (slugifyChar cfg)"
    by (simp add: slugifyChar_def isWordChar_def)
  with none show ?thesis by (simp add: allWord_replace)
qed

lemma slugForm_slugifyTitle: "slugForm cfg (slugifyTitle cfg t)"
proof -
  let ?r = "replaceNonWordRuns (slugifyChar cfg) t"
  let ?l = "toLowerCase ?r"
  obtain zs where zs: "?l = stripTrailingSeparators ?l @ zs"
    using stripTrailingSeparators_prefix by blast
  have 1: "if slugifyCharacter cfg = dash then slugged (stripTrailingSeparators ?l)
           else list_all isWordChar (stripTrailingSeparators ?l)"
  proof (cases "slugifyCharacter cfg = dash")
    case True
    then have "slugged ?l" using slugged_replace[of cfg t] by (simp add: slugged_lower)
    with zs have "slugged (stripTrailingSeparators ?l)" using slugged_prefix by metis
    with True show ?thesis by simp
  next
    case False
    then have "list_all isWordChar ?l" using slugged_replace[of cfg t] by (simp add: allWord_lower)
    with zs have "list_all isWordChar (stripTrailingSeparators ?l)" using allWord_prefix by metis
    with False show ?thesis by simp
  qed
  have "toLowerCase ?l = ?l" by (simp add: toLowerCase_def lower_idem)
  with zs have "toLowerCase (stripTrailingSeparators ?l) @ toLowerCase zs
      = stripTrailingSeparators ?l @ zs"
    unfolding toLowerCase_def by (metis map_append)
  then have 2: "toLowerCase (stripTrailingSeparators ?l) = stripTrailingSeparators ?l"
    by (simp add: toLowerCase_def)
  show ?thesis
    unfolding slugForm_def slugifyTitle_def
    using 1 2 stripTrailingSeparators_idem by simp
qed

lemma slugifyTitle_slugForm:
  assumes "slugForm cfg y"
  shows "slugifyTitle cfg y = y"
proof -
  from assms have lo: "toLowerCase y = y"
    and st: "stripTrailingSeparators y = y" by (simp_all add: slugForm_def)
  have "replaceNonWordRuns (slugifyChar cfg) y = y"
  proof (cases "slugifyCharacter cfg = dash")
    case True
    with assms show ?thesis by (simp add: slugForm_def slugifyChar_def replace_slugged)
  next
    case False
    with assms show ?thesis by (simp add: slugForm_def replace_allWord)
  qed
  with lo st show ?thesis by (simp add: slugifyTitle_def)
qed

lemma slugForm_chars:
  assumes "slugForm cfg y" and "c \<in> set y"
  shows "isWordChar c \<or> c = 45"
proof (cases "slugifyCharacter cfg = dash")
  case True
  with assms(1) have "list_all (\<lambda>c. isWordChar c \<or> c = 45) y"
    by (simp add: slugForm_def slugged_chars)
  with assms(2) show ?thesis by (simp add: list_all_iff)
next
  case False
  with assms(1) have "list_all isWordChar y" by (simp add: slugForm_def)
  with assms(2) show ?thesis by (simp add: list_all_iff)
qed

lemma basename_no_slash:
  assumes "47 \<notin> set p"
  shows "basename p = p"
proof -
  from assms have all: "\<forall>c \<in> set (rev p). \<not> isSlash c"
    by (auto simp: isSlash_def)
  then have "dropWhile isSlash (rev p) = rev p"
    by (cases "rev p") simp_all
  moreover from all have "takeWhile (\<lambda>c. \<not> isSlash c) (rev p) = rev p"
    by (simp add: takeWhile_eq_all_conv)
  ultimately have "basename p = rev (rev p)" unfolding basename_def by (simp only:)
  then show ?thesis by simp
qed

lemma lower_eq_dot: "toLowerCaseUnit c = 46 \<Longrightarrow> c = 46"
  by (simp add: toLowerCaseUnit_def split: if_splits)

lemma stripExtension_no_dot:
  assumes "46 \<notin> set y"
  shows "stripExtension y = y"
proof -
  have "extensionAtEnd True rxFileExtensions y = None"
    unfolding extensionAtEnd_def find_None_iff if_True
  proof (intro notI, elim exE conjE)
    fix e
    assume "toLowerCase (drop (length y - Suc (length e)) y) = 46 # e"
    then have "46 \<in> set (toLowerCase (drop (length y - Suc (length e)) y))" by simp
    then obtain c where c: "c \<in> set (drop (length y - Suc (length e)) y)" "toLowerCaseUnit c = 46"
      by (auto simp: toLowerCase_def)
    from c(2) have "c = 46" by (rule lower_eq_dot)
    with c(1) have "46 \<in> set y" by (auto dest: in_set_dropD)
    with assms show False by simp
  qed
  then show ?thesis by (simp add: stripExtension_def)
qed

lemma normalize_slugForm:
  assumes "slugForm cfg y"
  shows "normalizeNoteNameForFuzzyMatch cfg y = y"
proof -
  have ch: "c \<in> set y \<Longrightarrow> isWordChar c \<or> c = 45" for c
    using slugForm_chars[OF assms] by simp
  have "91 \<notin> set y" "93 \<notin> set y" "47 \<notin> set y" "46 \<notin> set y"
    using ch[of 91] ch[of 93] ch[of 47] ch[of 46] by (auto simp: isWordChar_def)
  then have nb: "filter (\<lambda>c. c \<noteq> 91 \<and> c \<noteq> 93) y = y"
    and bn: "basename y = y" and se: "stripExtension y = y"
    by (auto simp: filter_id_conv basename_no_slash stripExtension_no_dot)
  show ?thesis
    by (simp add: normalizeNoteNameForFuzzyMatch_def nb bn se slugifyTitle_slugForm[OF assms])
qed

text \<open>
  C4: name normalization is idempotent. For every configuration and every string \<open>x\<close>,
  normalizing \<open>normalizeNoteNameForFuzzyMatch cfg x\<close> again gives the same string:
  brackets, directory portion and extension are gone, separators are slugified and the
  letters are lowered after the first pass, and the second pass finds nothing to change.
\<close>

theorem normalize_idempotent:
  "normalizeNoteNameForFuzzyMatch cfg (normalizeNoteNameForFuzzyMatch cfg x)
     = normalizeNoteNameForFuzzyMatch cfg x"
proof -
  have "slugForm cfg (normalizeNoteNameForFuzzyMatch cfg x)"
    by (simp add: normalizeNoteNameForFuzzyMatch_def slugForm_slugifyTitle)
  then show ?thesis by (rule normalize_slugForm)
qed

section \<open>Occurrence search\<close>

lemma new_Range_ordered:
  "new_Range (Position l c) (Position l (c + n)) = Range (Position l c) (Position l (c + n))"
  by (simp add: new_Range_def isAfter_def)

lemma dropWhile_all_append: "list_all P xs \<Longrightarrow> dropWhile P (xs @ ys) = dropWhile P ys"
  by (induction xs) simp_all

lemma dropWhile_all: "list_all P xs \<Longrightarrow> dropWhile P xs = []"
  by (induction xs) simp_all

lemma takeWhile_all: "list_all P xs \<Longrightarrow> takeWhile P xs = xs"
  by (induction xs) simp_all

lemma list_all_rev: "list_all P (rev xs) = list_all P xs"
  by (simp add: list_all_iff)

lemma list_all_takeWhile: "list_all P (takeWhile P xs)"
  by (induction xs) simp_all

lemma split_no_space:
  "list_all (\<lambda>c. \<not> isSpace c) s \<Longrightarrow> splitWordsKeepingSpaces piece s = [piece @ s]"
proof (induction s arbitrary: piece)
  case Nil
  show ?case by simp
next
  case (Cons c cs)
  then have "matchWordThenSpaces (c # cs) = None"
    by (simp add: matchWordThenSpaces_def dropWhile_all)
  with Cons show ?case by simp
qed

lemma trimLeft_spaces_word:
  "list_all isSpace sp \<Longrightarrow> \<not> isSpace c \<Longrightarrow> trimLeft (sp @ c # t) = c # t"
  by (simp add: trimLeft_def dropWhile_all_append)

lemma trim_spaces_word:
  assumes "list_all isSpace sp" and "\<not> isSpace c" and "list_all (\<lambda>d. \<not> isSpace d) t"
    and "list_all isSpace sp'"
  shows "trim (sp @ (c # t) @ sp') = c # t"
proof -
  have 1: "dropWhile isSpace (sp @ (c # t) @ sp') = (c # t) @ sp'"
    using assms(1,2) by (simp add: dropWhile_all_append)
  have 2: "rev ((c # t) @ sp') = rev sp' @ rev (c # t)" by simp
  have 3: "dropWhile isSpace (rev sp' @ rev (c # t)) = dropWhile isSpace (rev (c # t))"
    using assms(4) by (intro dropWhile_all_append) (simp add: list_all_rev)
  have 4: "dropWhile isSpace (rev (c # t)) = rev (c # t)"
  proof (cases t rule: rev_cases)
    case Nil
    with assms(2) show ?thesis by simp
  next
    case (snoc ys y)
    with assms(3) show ?thesis by simp
  qed
  show ?thesis unfolding trim_def 1 2 3 4 by simp
qed

lemma trim_all_spaces: "list_all isSpace sp \<Longrightarrow> trim sp = []"
  by (simp add: trim_def dropWhile_all)

lemma trimLeft_all_spaces: "list_all isSpace sp \<Longrightarrow> trimLeft sp = []"
  by (simp add: trimLeft_def dropWhile_all)

lemma words_skip_spaces:
  "list_all isSpace sp \<Longrightarrow> wordsWithColumns col (sp @ s) = wordsWithColumns (col + length sp) s"
  by (induction sp arbitrary: col) simp_all

lemma rangesForWords_split:
  assumes "q \<noteq> []"
  shows "list_all isSpace piece \<Longrightarrow>
     rangesForWords q ln col (splitWordsKeepingSpaces piece s)
       = rangesOf q ln (wordsWithColumns (col + length piece) s)"
proof (induction piece s arbitrary: col rule: splitWordsKeepingSpaces.induct)
  case (1 piece)
  then show ?case using assms by (simp add: trim_all_spaces rangesOf_def new_Range_ordered)
next
  case (2 piece c cs)
  let ?w = "takeWhile (\<lambda>d. \<not> isSpace d) cs"
  let ?r = "dropWhile (\<lambda>d. \<not> isSpace d) cs"
  show ?case
  proof (cases "isSpace c")
    case True
    then have m: "matchWordThenSpaces (c # cs) = None" by (simp add: matchWordThenSpaces_def)
    from True "2.prems" have "list_all isSpace (piece @ [c])" by simp
    from "2.IH"(1)[OF m this, of col] m True show ?thesis by simp
  next
    case False
    show ?thesis
    proof (cases ?r)
      case Nil
      then have nosp: "list_all (\<lambda>d. \<not> isSpace d) cs"
        by (simp add: list_all_iff dropWhile_eq_Nil_conv)
      with False have m: "matchWordThenSpaces (c # cs) = None"
        by (simp add: matchWordThenSpaces_def Nil)
      from nosp have sp: "splitWordsKeepingSpaces (piece @ [c]) cs = [piece @ c # cs]"
        by (simp add: split_no_space)
      have tl: "trimLeft (piece @ c # cs) = c # cs"
        using "2.prems" False by (rule trimLeft_spaces_word)
      have tr: "trim (piece @ (c # cs) @ []) = c # cs"
        using "2.prems" False nosp by (intro trim_spaces_word) simp_all
      from nosp have tw: "?w = cs" by (simp add: takeWhile_all)
      show ?thesis using m sp tl tr False
        by (simp add: rangesOf_def tw Nil Let_def new_Range_ordered)
    next
      case (Cons d ds)
      then have d: "isSpace d" using hd_dropWhile[of "\<lambda>d. \<not> isSpace d" cs] by simp
      let ?sp = "takeWhile isSpace ?r"
      let ?rest = "dropWhile isSpace ?r"
      from d Cons have spne: "?sp \<noteq> []" by simp
      with False have m: "matchWordThenSpaces (c # cs) = Some ((c # ?w) @ ?sp, ?rest)"
        by (simp add: matchWordThenSpaces_def Let_def)
      have ih: "rangesForWords q ln k (splitWordsKeepingSpaces [] ?rest)
                  = rangesOf q ln (wordsWithColumns k ?rest)" for k
        using "2.IH"(2)[OF m refl, of k] by simp
      have allsp: "list_all isSpace ?sp" by (rule list_all_takeWhile)
      have nosp: "list_all (\<lambda>d. \<not> isSpace d) ?w" by (rule list_all_takeWhile)
      have trp: "trim piece = []" using "2.prems" by (rule trim_all_spaces)
      have tlw: "trimLeft ((c # ?w) @ ?sp) = (c # ?w) @ ?sp"
        using False by (simp add: trimLeft_def)
      have trw: "trim ([] @ (c # ?w) @ ?sp) = c # ?w"
        using False nosp allsp by (intro trim_spaces_word) simp_all
      have "wordsWithColumns k ?r = wordsWithColumns (k + length ?sp) ?rest" for k
        using words_skip_spaces[OF allsp, of k ?rest] by simp
      then have ws: "wordsWithColumns (col + length piece) (c # cs)
          = (col + length piece, c # ?w)
            # wordsWithColumns (Suc (col + length piece) + length ?w + length ?sp) ?rest"
        using False by simp
      have "rangesForWords q ln col (splitWordsKeepingSpaces piece (c # cs))
          = rangesForWords q ln col (piece # ((c # ?w) @ ?sp) # splitWordsKeepingSpaces [] ?rest)"
        using m by simp
      also have "\<dots> = (if c # ?w = q then [Range (Position ln (col + length piece))
                         (Position ln (col + length piece + length (c # ?w)))] else [])
            @ rangesForWords q ln (col + length piece + length ((c # ?w) @ ?sp))
                (splitWordsKeepingSpaces [] ?rest)"
        using trp tlw trw assms by (simp add: Let_def new_Range_ordered)
      also have "\<dots> = rangesOf q ln (wordsWithColumns (col + length piece) (c # cs))"
        unfolding ih ws by (simp add: rangesOf_def add.assoc)
      finally show ?thesis .
    qed
  qed
qed


lemma rangesForLine_words:
  "q \<noteq> [] \<Longrightarrow> rangesForLine q ln l = rangesOf q ln (wordsWithColumns 0 l)"
  using rangesForWords_split[of q "[]" ln 0 l] by (simp add: rangesForLine_def)

lemma rangesForWordInDocumentData_occurrences:
  "q \<noteq> [] \<Longrightarrow> rangesForWordInDocumentData (Some q) data = occurrences q data"
proof -
  assume q: "q \<noteq> []"
  have "(\<lambda>(lineNum, line'). rangesForLine q lineNum line')
      = (\<lambda>(lineNum, line'). rangesOf q lineNum (wordsWithColumns 0 line'))"
    by (simp add: rangesForLine_words[OF q])
  with q show ?thesis
    by (simp add: rangesForWordInDocumentData_def occurrences_def)
qed

lemma readFiles_eq:
  "readFiles h ps =
     (map (\<lambda>p. fs h (resolve (cwd h) [p])) ps, h\<lparr>trace := trace h @ map ReadFile ps\<rparr>)"
proof (induction ps arbitrary: h)
  case Nil
  show ?case by simp
next
  case (Cons p ps)
  show ?case by (simp add: Cons readFile_def emit_def)
qed

lemma map_zip_same:
  "map (\<lambda>(p, d). F p d) (zip ps (map f ps)) = map (\<lambda>p. F p (f p)) ps"
  by (induction ps) simp_all

lemma find_zip_none:
  "\<forall>p \<in> set ps. f p \<noteq> None \<Longrightarrow> find (\<lambda>(p, d). d = None) (zip ps (map f ps)) = None"
  by (induction ps) simp_all

lemma searchQuery_eq:
  "searchQuery tok =
     Some (if type tok = Tag then 35 # word tok else [91, 91] @ basename (word tok) @ [93, 93],
           if type tok = Tag then tok else tok\<lparr>type := WikiLink\<rparr>)"
  by (simp add: searchQuery_def)

lemma search_readable:
  assumes "\<forall>p \<in> set (searchPaths h). fs h (resolve (cwd h) [p]) \<noteq> None"
    and "searchQuery tok = Some (q, tok')"
  shows "search h tok =
     (Inr (concat (map (\<lambda>p. map (Location (Uri_file p))
                         (occurrences q (the (fs h (resolve (cwd h) [p])))))
                       (searchPaths h))),
      h\<lparr>trace := trace h @ FindFiles # map ReadFile (searchPaths h)\<rparr>)"
proof -
  let ?h1 = "emit FindFiles h"
  let ?f = "\<lambda>p. fs h (resolve (cwd h) [p])"
  have q: "q \<noteq> []" using assms(2) by (auto simp: searchQuery_eq split: if_splits)
  have rf: "readFiles ?h1 (searchPaths h)
      = (map ?f (searchPaths h), h\<lparr>trace := trace h @ FindFiles # map ReadFile (searchPaths h)\<rparr>)"
    by (simp add: readFiles_eq emit_def)
  have none: "find (\<lambda>(p, d). d = None) (zip (searchPaths h) (map ?f (searchPaths h))) = None"
    using assms(1) by (rule find_zip_none)
  have loc: "locationsInFile q p d = map (Location (Uri_file p)) (occurrences q d)" for p d
    unfolding locationsInFile_def rangesForWordInDocumentData_occurrences[OF q] ..
  have "search h tok =
     (Inr (concat (map (\<lambda>(p, d). locationsInFile q p (the d))
                       (zip (searchPaths h) (map ?f (searchPaths h))))),
      h\<lparr>trace := trace h @ FindFiles # map ReadFile (searchPaths h)\<rparr>)"
    unfolding search_def assms(2) findFiles_def
    using rf none by (simp add: searchPaths_def Let_def)
  then show ?thesis unfolding map_zip_same loc .
qed

lemmas path_eval = resolve_def normalizeString_def isAbsolute_def isSlash_def basename_def
  dirname_def join_def path_normalize_def

lemma demo_fsPaths:
  "fsPath (Uri_file (js ''/notes/a.md'')) = js ''/notes/a.md''"
  "fsPath (Uri_file (js ''/notes/b.md'')) = js ''/notes/b.md''"
  "fsPath (Uri_file (js ''/notes/c.txt'')) = js ''/notes/c.txt''"
  "fsPath (Uri_file (js ''/notes'')) = js ''/notes''"
  by (simp_all add: fsPath_def Uri_file_def isSlash_def isLatinLetter_def js_def)

lemma demo_searchPaths: "searchPaths demo_host = [js ''/notes/a.md'', js ''/notes/b.md'']"
  by (simp add: searchPaths_def demo_host_def ext_isNoteFile_def Uri_file_def isSlash_def js_def
        ext_extensions_def toLowerCase_def toLowerCaseUnit_def)

lemma demo_resolve:
  "resolve (js ''/'') [js ''/notes/a.md''] = js ''/notes/a.md''"
  "resolve (js ''/'') [js ''/notes/b.md''] = js ''/notes/b.md''"
  by (simp_all add: js_def path_eval)

lemma demo_readable:
  "\<forall>p \<in> set (searchPaths demo_host). fs demo_host (resolve (cwd demo_host) [p]) \<noteq> None"
  unfolding demo_searchPaths by (simp add: demo_host_def demo_resolve)

lemma demo_contents:
  "fs demo_host (resolve (cwd demo_host) [js ''/notes/a.md''])
      = Some note_a"
  "fs demo_host (resolve (cwd demo_host) [js ''/notes/b.md''])
      = Some note_b"
  by (simp_all add: demo_host_def demo_resolve) (simp_all add: js_def)

lemma demo_occurrences:
  "occurrences (js ''#urgent'') note_a
      = [Range (Position 0 0) (Position 0 7), Range (Position 1 5) (Position 1 12)]"
  "occurrences (js ''#urgent'') note_b = []"
  "occurrences (js ''[[]]'') note_a = []"
  "occurrences (js ''[[]]'') note_b = [Range (Position 0 17) (Position 0 21)]"
  by (simp_all add: occurrences_def rangesOf_def js_def isLineBreak_def isSpace_def
        note_a_def note_b_def)

text \<open>
  C2: occurrence search. For every token, the query is \<open>#text\<close> for a tag and
  \<open>[[basename(text)]]\<close> otherwise; every note file of the enumeration is read, in order;
  when the files can be read, the result holds, file by file and line by line, exactly one
  location for every word between white space that is equal to the query, and its span
  starts at the column of the first code unit of the word (after any leading white space)
  and ends at that column plus the length of the word. Nothing is matched up to
  normalization.
\<close>

theorem search_literal_occurrences:
  assumes "\<forall>p \<in> set (searchPaths h). fs h (resolve (cwd h) [p]) \<noteq> None"
  shows "search h tok =
     (Inr (concat (map (\<lambda>p. map (Location (Uri_file p))
                         (occurrences
                            (if type tok = Tag then 35 # word tok
                             else [91, 91] @ basename (word tok) @ [93, 93])
                            (the (fs h (resolve (cwd h) [p])))))
                       (searchPaths h))),
      h\<lparr>trace := trace h @ FindFiles # map ReadFile (searchPaths h)\<rparr>)"
  using assms searchQuery_eq by (rule search_readable)

theorem search_literal_occurrences_witness:
  "fst (search demo_host urgent_tag)
     = Inr [Location (Uri_file (js ''/notes/a.md'')) (Range (Position 0 0) (Position 0 7)),
            Location (Uri_file (js ''/notes/a.md'')) (Range (Position 1 5) (Position 1 12))]"
proof -
  have q: "(if type urgent_tag = Tag then 35 # word urgent_tag
            else [91, 91] @ basename (word urgent_tag) @ [93, 93]) = js ''#urgent''"
    by (simp add: urgent_tag_def js_def)
  show ?thesis
    unfolding search_literal_occurrences[OF demo_readable] demo_searchPaths q
    by (simp add: demo_contents demo_occurrences)
qed

text \<open>
  C9: in \<open>ReferenceSearch.search\<close> the branch that returns the empty list is never
  taken. The second test assigns instead of comparing, so every token that is not a tag
  is searched as \<open>[[basename(word)]]\<close>, as a wiki link would be; the \<open>Null\<close> token is
  searched as the text \<open>[[]]\<close>.
\<close>

theorem search_never_takes_else_branch:
  "(\<forall>tok. searchQuery tok \<noteq> None)
   \<and> (\<forall>tok. type tok \<noteq> Tag \<longrightarrow>
          searchQuery tok
            = Some ([91, 91] @ basename (word tok) @ [93, 93], tok\<lparr>type := WikiLink\<rparr>))
   \<and> searchQuery NULL_CONTEXT_WORD = Some (js ''[[]]'', NULL_CONTEXT_WORD\<lparr>type := WikiLink\<rparr>)
   \<and> (\<forall>h tok. type tok \<noteq> Tag \<longrightarrow> search h tok = search h (tok\<lparr>type := WikiLink\<rparr>))"
  by (simp add: searchQuery_def search_def NULL_CONTEXT_WORD_def basename_def js_def)

theorem search_never_takes_else_branch_witness:
  "type NULL_CONTEXT_WORD \<noteq> Tag
   \<and> fst (search demo_host NULL_CONTEXT_WORD)
       = Inr [Location (Uri_file (js ''/notes/b.md'')) (Range (Position 0 17) (Position 0 21))]"
proof -
  have q: "searchQuery NULL_CONTEXT_WORD = Some (js ''[[]]'', NULL_CONTEXT_WORD\<lparr>type := WikiLink\<rparr>)"
    using search_never_takes_else_branch by blast
  have "fst (search demo_host NULL_CONTEXT_WORD)
       = Inr [Location (Uri_file (js ''/notes/b.md'')) (Range (Position 0 17) (Position 0 21))]"
    unfolding search_readable[OF demo_readable q] demo_searchPaths
    by (simp add: demo_contents demo_occurrences)
  then show ?thesis by (simp add: NULL_CONTEXT_WORD_def)
qed

section \<open>Title case\<close>

















section \<open>The tag list is filled once and only grows\<close>

lemma run_snoc: "run s (evs @ [e]) = fire (run s evs) e"
  by (simp add: run_def)

lemma fire_tags_mono: "TAG_WORD_SET s \<subseteq> TAG_WORD_SET (fire s e)"
  by (cases e) auto

lemma fire_started: "STARTED_INIT s \<Longrightarrow> STARTED_INIT (fire s e)"
  by (cases e) auto

lemma fire_scans:
  "scans s = (if STARTED_INIT s then 1 else 0) \<Longrightarrow>
   scans (fire s e) = (if STARTED_INIT (fire s e) then 1 else 0)"
  by (cases e) auto

lemma run_tags_mono: "TAG_WORD_SET s \<subseteq> TAG_WORD_SET (run s evs)"
proof (induction evs rule: rev_induct)
  case Nil
  show ?case by (simp add: run_def)
next
  case (snoc e evs)
  then show ?case unfolding run_snoc using fire_tags_mono by blast
qed

lemma run_started: "STARTED_INIT s \<Longrightarrow> STARTED_INIT (run s evs)"
  by (induction evs rule: rev_induct) (simp_all add: run_def fire_started)

lemma run_scans:
  "scans (run WorkspaceTagList_initial evs)
     = (if STARTED_INIT (run WorkspaceTagList_initial evs) then 1 else 0)"
proof (induction evs rule: rev_induct)
  case Nil
  show ?case by (simp add: run_def WorkspaceTagList_initial_def)
next
  case (snoc e evs)
  then show ?case unfolding run_snoc by (rule fire_scans)
qed

text \<open>
  C7: the tag set of the workspace is populated at most once and only grows. A call of
  \<open>initSet\<close> sets \<open>STARTED_INIT\<close>; once it is set, it stays set and a call of \<open>initSet\<close>
  changes nothing, so that no second scan starts: over any sequence of steps from the
  initial state at most one scan is started. No step takes an element out of
  \<open>TAG_WORD_SET\<close>.
\<close>

theorem tag_set_initialized_once_and_grows:
  "(STARTED_INIT s \<longrightarrow> fire s InitSet = s)
   \<and> STARTED_INIT (fire s InitSet)
   \<and> (STARTED_INIT s \<longrightarrow> STARTED_INIT (run s evs))
   \<and> scans (run WorkspaceTagList_initial evs) \<le> 1
   \<and> TAG_WORD_SET s \<subseteq> TAG_WORD_SET (run s evs)"
  using run_tags_mono[of s evs] run_started[of s evs] run_scans[of evs] by simp

lemma demo_run:
  "run WorkspaceTagList_initial demo_events =
     \<lparr>TAG_WORD_SET = {js ''#a'', js ''#c-d''}, STARTED_INIT = True, COMPLETED_INIT = True,
      suspended = 0, pendingReads = [], scans = 1\<rparr>"
  by (simp add: run_def demo_events_def WorkspaceTagList_initial_def ext_isNoteFile_def
        Uri_file_def isSlash_def js_def ext_extensions_def toLowerCase_def toLowerCaseUnit_def
        tagsOfData_def isSpace_def matches_TAG_REGEX_WITH_ANCHORS_def isTagChar_def
        isWordChar_def insert_commute)

theorem tag_set_initialized_once_and_grows_witness:
  "STARTED_INIT (fire WorkspaceTagList_initial InitSet)
   \<and> fire (fire WorkspaceTagList_initial InitSet) InitSet = fire WorkspaceTagList_initial InitSet
   \<and> TAG_WORD_SET (run WorkspaceTagList_initial demo_events) = {js ''#a'', js ''#c-d''}
   \<and> scans (run WorkspaceTagList_initial demo_events) = 1"
proof -
  have 1: "STARTED_INIT (fire WorkspaceTagList_initial InitSet)"
    using tag_set_initialized_once_and_grows[of WorkspaceTagList_initial] by blast
  with tag_set_initialized_once_and_grows[of "fire WorkspaceTagList_initial InitSet"]
  have 2: "fire (fire WorkspaceTagList_initial InitSet) InitSet = fire WorkspaceTagList_initial InitSet"
    by blast
  from 1 2 demo_run show ?thesis by simp
qed

section \<open>The scanner and the definition provider of extension.ts\<close>

lemmas scan_eval = getContextWord_def getText_def offsetAt_def new_Range_def isAfter_def
  Let_def ext_extensions_def toLowerCase_def toLowerCaseUnit_def

lemma demo_txt_link:
  "getContextWord demo_document at_txt_link =
     \<lparr>type = WikiLink, word = js ''c.txt'', hasExtension = Some False,
      word_range = Some (Range (Position 0 6) (Position 0 11))\<rparr>"
  by (simp add: scan_eval at_txt_link_def demo_document_def js_def)

lemma demo_markdown_link:
  "getContextWord demo_document at_markdown_link =
     \<lparr>type = WikiLink, word = js ''b.markdown'', hasExtension = Some True,
      word_range = Some (Range (Position 0 18) (Position 0 28))\<rparr>"
  by (simp add: scan_eval at_markdown_link_def demo_document_def js_def)

lemma demo_foo_link:
  "getContextWord demo_document at_foo_link =
     \<lparr>type = WikiLink, word = js ''foo.md.txt'', hasExtension = Some True,
      word_range = Some (Range (Position 0 34) (Position 0 44))\<rparr>"
  by (simp add: scan_eval at_foo_link_def demo_document_def js_def)

lemma demo_lower_link:
  "getContextWord demo_document at_lower_link =
     \<lparr>type = WikiLink, word = js ''b.md'', hasExtension = Some True,
      word_range = Some (Range (Position 0 47) (Position 0 51))\<rparr>"
  by (simp add: scan_eval at_lower_link_def demo_document_def js_def)

lemma demo_link_matches:
  "isWikiLinkMatch (getText demo_document (Range (Position 0 4) (Position 0 11)))"
  "isWikiLinkMatch (getText demo_document (Range (Position 0 16) (Position 0 28)))"
  "isWikiLinkMatch (getText demo_document (Range (Position 0 32) (Position 0 44)))"
  "isWikiLinkMatch (getText demo_document (Range (Position 0 45) (Position 0 51)))"
  by (simp_all add: isWikiLinkMatch_def getText_def offsetAt_def demo_document_def js_def
        isWikiLinkChar_def isWordChar_def)

text \<open>
  C8: the definition provider of \<open>extension.ts\<close> resolves a wiki link only when its
  \<open>hasExtension\<close> flag is set. For a link token whose flag is false it returns the
  empty list and leaves the host as it is: the files of the workspace are not
  enumerated, no path is looked up and no note is created.
\<close>

theorem ext_provideDefinition_requires_extension:
  assumes "type (getContextWord document getWordRangeAtPosition) = WikiLink"
    and "hasExtension (getContextWord document getWordRangeAtPosition) = Some False"
  shows "ext_provideDefinition st h document getWordRangeAtPosition = ([], h)"
  using assms by (simp add: ext_provideDefinition_def Let_def)

theorem ext_provideDefinition_requires_extension_witness:
  "word (getContextWord demo_document at_txt_link) = js ''c.txt''
   \<and> Uri_file (js ''/notes/c.txt'') \<in> set (workspaceFiles demo_host)
   \<and> ext_provideDefinition unique_settings demo_host demo_document at_txt_link = ([], demo_host)"
proof -
  have "ext_provideDefinition unique_settings demo_host demo_document at_txt_link = ([], demo_host)"
    by (rule ext_provideDefinition_requires_extension) (simp_all add: demo_txt_link)
  then show ?thesis by (simp add: demo_txt_link demo_host_def)
qed

lemma getContextWord_link_flag:
  assumes "type (getContextWord document g) = WikiLink"
  shows "hasExtension (getContextWord document g)
     = Some (extensionAnywhere ext_extensions (word (getContextWord document g)))"
  using assms
  by (auto simp: getContextWord_def NULL_CONTEXT_WORD_def Let_def split: option.splits if_splits)

text \<open>
  C3: the scanner takes the text after the two brackets, and sets \<open>hasExtension\<close> by
  the expression \<open>/\.(md|markdown)/i\<close>, which has no \<open>$\<close>. With the cursor in
  \<open>[[foo.md.txt\<close> the captured text is \<open>foo.md.txt\<close> and the flag is true, although
  the text does not end in an extension of either list.
\<close>

theorem getContextWord_extension_not_anchored:
  "getContextWord demo_document at_foo_link =
     \<lparr>type = WikiLink, word = js ''foo.md.txt'', hasExtension = Some True,
      word_range = Some (Range (Position 0 34) (Position 0 44))\<rparr>
   \<and> isWikiLinkMatch (getText demo_document (Range (Position 0 32) (Position 0 44)))
   \<and> extensionAtEnd True ext_extensions (js ''foo.md.txt'') = None
   \<and> extensionAtEnd True rxFileExtensions (js ''foo.md.txt'') = None"
  by (simp add: demo_foo_link demo_link_matches)
     (simp add: extensionAtEnd_def ext_extensions_def rxFileExtensions_def js_def
        toLowerCase_def toLowerCaseUnit_def)


section \<open>Refusing to create a note\<close>

lemma createMissingNote_refused:
  assumes "\<not> useUniqueFilenames cfg"
  shows "createMissingNote cfg h ref =
     (None,
      if type ref = WikiLink \<and> createNoteOnGoToDefinitionWhenMissing cfg
         \<and> activeTextEditor h \<noteq> None
      then showWarningMessage h convention_warning else h)"
  using assms by (simp add: createMissingNote_def split: option.splits)

lemma ext_createMissingNote_refused:
  assumes "\<not> ext_useUniqueFilenames st"
  shows "ext_createMissingNote st h contextWord =
     (None,
      if type contextWord = WikiLink \<and> ext_createNoteOnGoToDefinitionWhenMissing st
         \<and> activeTextEditor h \<noteq> None
      then showWarningMessage h convention_warning else h)"
  using assms by (simp add: ext_createMissingNote_def split: option.splits)

text \<open>
  C5: when the naming convention is not \<open>uniqueFilenames\<close>, both
  \<open>createMissingNote\<close> functions return no path and write no file, and the file system
  is as before. The warning is shown exactly when the token is a wiki link, the
  create-on-missing setting is on and there is an active editor; otherwise the refusal
  is silent.
\<close>

theorem synthesis_refused_without_unique_filenames:
  "(\<not> useUniqueFilenames cfg \<longrightarrow>
      fst (createMissingNote cfg h ref) = None
      \<and> fs (snd (createMissingNote cfg h ref)) = fs h
      \<and> trace (snd (createMissingNote cfg h ref)) =
          trace h @ (if type ref = WikiLink \<and> createNoteOnGoToDefinitionWhenMissing cfg
                        \<and> activeTextEditor h \<noteq> None
                     then [ShowWarningMessage convention_warning] else []))
   \<and> (\<not> ext_useUniqueFilenames st \<longrightarrow>
      fst (ext_createMissingNote st h ref) = None
      \<and> fs (snd (ext_createMissingNote st h ref)) = fs h
      \<and> trace (snd (ext_createMissingNote st h ref)) =
          trace h @ (if type ref = WikiLink \<and> ext_createNoteOnGoToDefinitionWhenMissing st
                        \<and> activeTextEditor h \<noteq> None
                     then [ShowWarningMessage convention_warning] else []))"
proof -
  have 1: "fst (createMissingNote cfg h ref) = None
      \<and> fs (snd (createMissingNote cfg h ref)) = fs h
      \<and> trace (snd (createMissingNote cfg h ref)) =
          trace h @ (if type ref = WikiLink \<and> createNoteOnGoToDefinitionWhenMissing cfg
                        \<and> activeTextEditor h \<noteq> None
                     then [ShowWarningMessage convention_warning] else [])"
    if "\<not> useUniqueFilenames cfg"
    unfolding createMissingNote_refused[OF that]
    by (simp add: showWarningMessage_def emit_def)
  have 2: "fst (ext_createMissingNote st h ref) = None
      \<and> fs (snd (ext_createMissingNote st h ref)) = fs h
      \<and> trace (snd (ext_createMissingNote st h ref)) =
          trace h @ (if type ref = WikiLink \<and> ext_createNoteOnGoToDefinitionWhenMissing st
                        \<and> activeTextEditor h \<noteq> None
                     then [ShowWarningMessage convention_warning] else [])"
    if "\<not> ext_useUniqueFilenames st"
    unfolding ext_createMissingNote_refused[OF that]
    by (simp add: showWarningMessage_def emit_def)
  from 1 2 show ?thesis by blast
qed

theorem synthesis_refused_without_unique_filenames_witness:
  "\<not> useUniqueFilenames relative_config
   \<and> createMissingNote relative_config demo_host (link_ref (js ''new note''))
       = (None, demo_host\<lparr>trace := [ShowWarningMessage convention_warning]\<rparr>)
   \<and> \<not> ext_useUniqueFilenames relative_settings
   \<and> trace (snd (ext_createMissingNote relative_settings demo_host (link_ref (js ''new note''))))
       = [ShowWarningMessage convention_warning]"
proof -
  have 1: "\<not> useUniqueFilenames relative_config"
    by (simp add: useUniqueFilenames_def relative_config_def DEFAULT_CONFIG_def)
  have 2: "\<not> ext_useUniqueFilenames relative_settings"
    by (simp add: ext_useUniqueFilenames_def ext_workspaceFilenameConvention_def
          relative_settings_def unique_settings_def js_def)
  have 3: "createNoteOnGoToDefinitionWhenMissing relative_config"
    "ext_createNoteOnGoToDefinitionWhenMissing relative_settings"
    "activeTextEditor demo_host \<noteq> None" "trace demo_host = []"
    "type (link_ref (js ''new note'')) = WikiLink"
    by (simp_all add: relative_config_def DEFAULT_CONFIG_def relative_settings_def
          unique_settings_def ext_createNoteOnGoToDefinitionWhenMissing_def demo_host_def
          link_ref_def)
  from synthesis_refused_without_unique_filenames
    [of relative_config demo_host "link_ref (js ''new note'')" relative_settings] 1 2 3
  have a: "fst (createMissingNote relative_config demo_host (link_ref (js ''new note''))) = None"
    and b: "trace (snd (createMissingNote relative_config demo_host (link_ref (js ''new note''))))
              = [ShowWarningMessage convention_warning]"
    and c: "trace (snd (ext_createMissingNote relative_settings demo_host (link_ref (js ''new note''))))
              = [ShowWarningMessage convention_warning]"
    by simp_all
  have "createMissingNote relative_config demo_host (link_ref (js ''new note''))
       = (None, demo_host\<lparr>trace := [ShowWarningMessage convention_warning]\<rparr>)"
    using 1 3 by (simp add: createMissingNote_refused showWarningMessage_def emit_def)
  with 1 2 c show ?thesis by simp
qed

text \<open>
  Without an active editor no warning is shown: for a wiki link, with the setting on and
  the convention \<open>relativePaths\<close>, both functions return with the host unchanged.
\<close>

theorem synthesis_refusal_silent_without_editor:
  "type (link_ref (js ''new note'')) = WikiLink
   \<and> createNoteOnGoToDefinitionWhenMissing relative_config
   \<and> \<not> useUniqueFilenames relative_config
   \<and> createMissingNote relative_config no_editor_host (link_ref (js ''new note''))
       = (None, no_editor_host)
   \<and> ext_createNoteOnGoToDefinitionWhenMissing relative_settings
   \<and> \<not> ext_useUniqueFilenames relative_settings
   \<and> ext_createMissingNote relative_settings no_editor_host (link_ref (js ''new note''))
       = (None, no_editor_host)
   \<and> trace no_editor_host = []"
  by (simp add: createMissingNote_def ext_createMissingNote_def link_ref_def relative_config_def
        DEFAULT_CONFIG_def useUniqueFilenames_def no_editor_host_def demo_host_def
        relative_settings_def unique_settings_def ext_useUniqueFilenames_def
        ext_workspaceFilenameConvention_def ext_createNoteOnGoToDefinitionWhenMissing_def js_def)


section \<open>The ordered resolution policy\<close>

lemma emit_fields:
  "fs (emit e h) = fs h" "cwd (emit e h) = cwd h" "workspaceFiles (emit e h) = workspaceFiles h"
  "activeTextEditor (emit e h) = activeTextEditor h" "trace (emit e h) = trace h @ [e]"
  "workspaceFolders (emit e h) = workspaceFolders h"
  by (simp_all add: emit_def)

lemma relativePathStep_eq:
  "relativePathStep h documentPath w files =
     (if files \<noteq> [] then (files, h)
      else if fs h (resolve (cwd h) [resolve (cwd h) [dirname documentPath, w]]) \<noteq> None
      then ([Uri_file (resolve (cwd h) [dirname documentPath, w])],
            emit (ExistsSync (resolve (cwd h) [dirname documentPath, w])) h)
      else ([], emit (ExistsSync (resolve (cwd h) [dirname documentPath, w])) h))"
  by (simp add: relativePathStep_def existsSync_def Let_def)

lemma provideDefinition_policy:
  assumes "type ref = WikiLink"
  shows "provideDefinition cfg h document ref =
     (let matches = filter (\<lambda>f. noteNamesFuzzyMatch cfg (fsPath f) (word ref))
                      (filter isNoteFile (workspaceFiles h));
          h1 = (if useUniqueFilenames cfg then emit FindFiles h else h);
          absPath = resolve (cwd h) [dirname (fsPath (document_uri document)), word ref];
          h2 = emit (ExistsSync absPath) h1
      in if useUniqueFilenames cfg \<and> matches \<noteq> []
         then (map (\<lambda>f. Location_at f (Position 0 0)) matches, h1)
         else if fs h (resolve (cwd h) [absPath]) \<noteq> None
         then ([Location_at (Uri_file absPath) (Position 0 0)], h2)
         else (case createMissingNote cfg h2 ref of
                 (None, h3) \<Rightarrow> ([], h3)
               | (Some p, h3) \<Rightarrow> ([Location_at (Uri_file p) (Position 0 0)], h3)))"
  using assms
  by (simp add: provideDefinition_def fuzzyMatchStep_def noteFiles_def findFiles_def
        relativePathStep_eq createStep_def emit_fields Let_def split: option.splits prod.splits)

lemma ext_provideDefinition_policy:
  assumes "type (getContextWord document g) = WikiLink"
    and "hasExtension (getContextWord document g) = Some True"
  shows "ext_provideDefinition st h document g =
     (let w = word (getContextWord document g);
          matches = filter (\<lambda>f. basename (path f) = w) (workspaceFiles h);
          h1 = (if ext_useUniqueFilenames st then emit FindFiles h else h);
          absPath = resolve (cwd h) [dirname (path (document_uri document)), w];
          h2 = emit (ExistsSync absPath) h1
      in if ext_useUniqueFilenames st \<and> matches \<noteq> []
         then (map (\<lambda>f. Location_at f (Position 0 0)) matches, h1)
         else if fs h (resolve (cwd h) [absPath]) \<noteq> None
         then ([Location_at (Uri_file absPath) (Position 0 0)], h2)
         else (case ext_createMissingNote st h2 (getContextWord document g) of
                 (None, h3) \<Rightarrow> ([], h3)
               | (Some p, h3) \<Rightarrow>
                   ([Location_at (Uri_parse (js ''file://'' @ p)) (Position 0 0)], h3)))"
  using assms
  by (simp add: ext_provideDefinition_def ext_basenameStep_def findFiles_def
        relativePathStep_eq ext_createStep_def emit_fields Let_def split: option.splits prod.splits)


text \<open>
  C1: both definition providers follow the ordered policy and stop at the
  first step that finds something. The provider of the later sources, for every link
  token: under \<open>uniqueFilenames\<close> it takes every note file whose name matches the text
  of the token up to normalization; only when there is none, it resolves the text against
  the directory of the document, and a file at that path is the only match; only when
  both steps find nothing, \<open>createMissingNote\<close> is called. The provider of
  \<open>extension.ts\<close> does the same for the link tokens whose \<open>hasExtension\<close> flag is set,
  but its first step takes the enumerated files whose base name is equal to the text.
\<close>

theorem resolution_ordered_policy:
  "(type ref = WikiLink \<longrightarrow>
      provideDefinition cfg h document ref =
        (let matches = filter (\<lambda>f. noteNamesFuzzyMatch cfg (fsPath f) (word ref))
                         (filter isNoteFile (workspaceFiles h));
             h1 = (if useUniqueFilenames cfg then emit FindFiles h else h);
             absPath = resolve (cwd h) [dirname (fsPath (document_uri document)), word ref];
             h2 = emit (ExistsSync absPath) h1
         in if useUniqueFilenames cfg \<and> matches \<noteq> []
            then (map (\<lambda>f. Location_at f (Position 0 0)) matches, h1)
            else if fs h (resolve (cwd h) [absPath]) \<noteq> None
            then ([Location_at (Uri_file absPath) (Position 0 0)], h2)
            else (case createMissingNote cfg h2 ref of
                    (None, h3) \<Rightarrow> ([], h3)
                  | (Some p, h3) \<Rightarrow> ([Location_at (Uri_file p) (Position 0 0)], h3))))
   \<and> (type (getContextWord document g) = WikiLink
        \<and> hasExtension (getContextWord document g) = Some True \<longrightarrow>
      ext_provideDefinition st h document g =
        (let w = word (getContextWord document g);
             matches = filter (\<lambda>f. basename (path f) = w) (workspaceFiles h);
             h1 = (if ext_useUniqueFilenames st then emit FindFiles h else h);
             absPath = resolve (cwd h) [dirname (path (document_uri document)), w];
             h2 = emit (ExistsSync absPath) h1
         in if ext_useUniqueFilenames st \<and> matches \<noteq> []
            then (map (\<lambda>f. Location_at f (Position 0 0)) matches, h1)
            else if fs h (resolve (cwd h) [absPath]) \<noteq> None
            then ([Location_at (Uri_file absPath) (Position 0 0)], h2)
            else (case ext_createMissingNote st h2 (getContextWord document g) of
                    (None, h3) \<Rightarrow> ([], h3)
                  | (Some p, h3) \<Rightarrow>
                      ([Location_at (Uri_parse (js ''file://'' @ p)) (Position 0 0)], h3))))"
  using provideDefinition_policy[of ref cfg h document]
    ext_provideDefinition_policy[of document g st h]
  by blast

lemma demo_normalized:
  "normalizeNoteNameForFuzzyMatch DEFAULT_CONFIG (js ''/notes/a.md'') = js ''a''"
  "normalizeNoteNameForFuzzyMatch DEFAULT_CONFIG (js ''/notes/b.md'') = js ''b''"
  "normalizeNoteNameForFuzzyMatch DEFAULT_CONFIG (js ''b.markdown'') = js ''b''"
  by (simp_all add: normalizeNoteNameForFuzzyMatch_def DEFAULT_CONFIG_def js_def basename_def
        isSlash_def stripExtension_def extensionAtEnd_def rxFileExtensions_def toLowerCase_def
        toLowerCaseUnit_def slugifyTitle_def slugifyChar_def isWordChar_def
        stripTrailingSeparators_def)

lemma demo_noteFiles:
  "filter isNoteFile (workspaceFiles demo_host)
     = [Uri_file (js ''/notes/a.md''), Uri_file (js ''/notes/b.md'')]"
  by (simp add: demo_host_def isNoteFile_def matchesFileExtensions_def extensionAtEnd_def
        rxFileExtensions_def Uri_file_def isSlash_def js_def toLowerCase_def toLowerCaseUnit_def)

lemma demo_fuzzy_matches:
  "filter (\<lambda>f. noteNamesFuzzyMatch DEFAULT_CONFIG (fsPath f) (js ''b.markdown''))
     (filter isNoteFile (workspaceFiles demo_host))
     = [Uri_file (js ''/notes/b.md'')]"
  unfolding demo_noteFiles
  by (simp add: noteNamesFuzzyMatch_def demo_fsPaths demo_normalized)
     (simp add: js_def)

lemma demo_exact_matches:
  "filter (\<lambda>f. basename (path f) = js ''b.md'') (workspaceFiles demo_host)
     = [Uri_file (js ''/notes/b.md'')]"
  "filter (\<lambda>f. basename (path f) = js ''b.markdown'') (workspaceFiles demo_host) = []"
  by (simp_all add: demo_host_def Uri_file_def isSlash_def js_def basename_def isSlash_def)

lemma demo_settings:
  "ext_useUniqueFilenames unique_settings" "ext_useUniqueFilenames unique_settings_no_create"
  "\<not> ext_createNoteOnGoToDefinitionWhenMissing unique_settings_no_create"
  "useUniqueFilenames DEFAULT_CONFIG"
  by (simp_all add: ext_useUniqueFilenames_def ext_workspaceFilenameConvention_def
        unique_settings_def unique_settings_no_create_def useUniqueFilenames_def
        DEFAULT_CONFIG_def ext_createNoteOnGoToDefinitionWhenMissing_def)

theorem resolution_ordered_policy_witness:
  "provideDefinition DEFAULT_CONFIG demo_host demo_document (link_ref (js ''b.markdown''))
     = ([Location_at (Uri_file (js ''/notes/b.md'')) (Position 0 0)], emit FindFiles demo_host)
   \<and> ext_provideDefinition unique_settings demo_host demo_document at_lower_link
     = ([Location_at (Uri_file (js ''/notes/b.md'')) (Position 0 0)], emit FindFiles demo_host)"
proof -
  have t: "type (link_ref (js ''b.markdown'')) = WikiLink" "word (link_ref (js ''b.markdown'')) = js ''b.markdown''"
    by (simp_all add: link_ref_def)
  note m = resolution_ordered_policy
    [of "link_ref (js ''b.markdown'')" DEFAULT_CONFIG demo_host demo_document,
     THEN conjunct1, THEN mp, OF t(1)]
  have 1: "provideDefinition DEFAULT_CONFIG demo_host demo_document (link_ref (js ''b.markdown''))
     = ([Location_at (Uri_file (js ''/notes/b.md'')) (Position 0 0)], emit FindFiles demo_host)"
    unfolding m Let_def t(2) demo_fuzzy_matches by (simp add: demo_settings)
  have l: "type (getContextWord demo_document at_lower_link) = WikiLink
      \<and> hasExtension (getContextWord demo_document at_lower_link) = Some True"
    by (simp add: demo_lower_link)
  have w: "word (getContextWord demo_document at_lower_link) = js ''b.md''"
    by (simp add: demo_lower_link)
  note e = resolution_ordered_policy
    [of _ _ demo_host demo_document at_lower_link unique_settings,
     THEN conjunct2, THEN mp, OF l]
  have 2: "ext_provideDefinition unique_settings demo_host demo_document at_lower_link
     = ([Location_at (Uri_file (js ''/notes/b.md'')) (Position 0 0)], emit FindFiles demo_host)"
    unfolding e Let_def w demo_exact_matches by (simp add: demo_settings)
  from 1 2 show ?thesis by simp
qed

lemma demo_markdown_path:
  "resolve (cwd demo_host) [dirname (path (document_uri demo_document)), js ''b.markdown'']
     = js ''/notes/b.markdown''"
  "resolve (cwd demo_host) [js ''/notes/b.markdown''] = js ''/notes/b.markdown''"
  "fs demo_host (js ''/notes/b.markdown'') = None"
  by (simp_all add: demo_host_def demo_document_def Uri_file_def isSlash_def js_def path_eval
        note_a_def note_b_def)

text \<open>
  The provider of \<open>extension.ts\<close> does not match up to normalization: under
  \<open>uniqueFilenames\<close>, the note \<open>/notes/b.md\<close> matches the token \<open>b.markdown\<close> up to
  normalization, and the provider finds nothing.
\<close>

theorem monolithic_provider_matches_exactly:
  "type (getContextWord demo_document at_markdown_link) = WikiLink
   \<and> word (getContextWord demo_document at_markdown_link) = js ''b.markdown''
   \<and> ext_useUniqueFilenames unique_settings_no_create
   \<and> Uri_file (js ''/notes/b.md'') \<in> set (workspaceFiles demo_host)
   \<and> noteNamesFuzzyMatch DEFAULT_CONFIG (fsPath (Uri_file (js ''/notes/b.md''))) (js ''b.markdown'')
   \<and> fst (ext_provideDefinition unique_settings_no_create demo_host demo_document at_markdown_link)
       = []"
proof -
  have l: "type (getContextWord demo_document at_markdown_link) = WikiLink"
    "hasExtension (getContextWord demo_document at_markdown_link) = Some True"
    and w: "word (getContextWord demo_document at_markdown_link) = js ''b.markdown''"
    by (simp_all add: demo_markdown_link)
  have "ext_provideDefinition unique_settings_no_create demo_host demo_document at_markdown_link
      = ([], emit (ExistsSync (js ''/notes/b.markdown'')) (emit FindFiles demo_host))"
    unfolding ext_provideDefinition_policy[OF l] Let_def w demo_exact_matches demo_markdown_path
    by (simp add: demo_settings ext_createMissingNote_def l)
  moreover have "Uri_file (js ''/notes/b.md'') \<in> set (workspaceFiles demo_host)"
    by (simp add: demo_host_def)
  moreover have "noteNamesFuzzyMatch DEFAULT_CONFIG (fsPath (Uri_file (js ''/notes/b.md'')))
      (js ''b.markdown'')"
    by (simp add: noteNamesFuzzyMatch_def demo_fsPaths demo_normalized)
  ultimately show ?thesis
    by (simp add: l w demo_settings)
qed

section \<open>The new-note command\<close>

lemma showTextDocument_fields:
  "fs (snd (showTextDocument h u)) = fs h"
  "cwd (snd (showTextDocument h u)) = cwd h"
  "trace (snd (showTextDocument h u)) = trace h @ [ShowTextDocument u]"
  by (simp_all add: showTextDocument_def emit_def Let_def)















end
